theory Spec2Isabelle
  imports Main
begin

section \<open>Python values and exceptions\<close>

text \<open>
  The development embeds the class \<open>H5PYDataset\<close> of \<open>fuel/datasets/hdf5.py\<close>.
  Exceptions are values of the type \<open>error\<close>; a method is an action on an explicit
  state and returns either the exception it raises or its result, together with the
  state it leaves behind (an exception does not undo the mutations made before it).
\<close>

datatype error = ValueError | TypeError | KeyError | IndexError | NameError | IOError

type_synonym ('s, 'r) action = "'s \<Rightarrow> (error + 'r) \<times> 's"

definition py_return :: "'r \<Rightarrow> ('s, 'r) action" where
  "py_return x = (\<lambda>s. (Inr x, s))"

definition py_raise :: "error \<Rightarrow> ('s, 'r) action" where
  "py_raise e = (\<lambda>s. (Inl e, s))"

definition lift :: "error + 'r \<Rightarrow> ('s, 'r) action" where
  "lift r = (\<lambda>s. (r, s))"

definition py_bind :: "('s, 'a) action \<Rightarrow> ('a \<Rightarrow> ('s, 'b) action) \<Rightarrow> ('s, 'b) action" where
  "py_bind m k = (\<lambda>s. case m s of (Inl e, s') \<Rightarrow> (Inl e, s') | (Inr x, s') \<Rightarrow> k x s')"

text \<open>The first exception of a list comprehension aborts it.\<close>

fun sequence_sum :: "(error + 'a) list \<Rightarrow> error + 'a list" where
  "sequence_sum [] = Inr []"
| "sequence_sum (Inl e # rs) = Inl e"
| "sequence_sum (Inr x # rs) = (case sequence_sum rs of Inl e \<Rightarrow> Inl e | Inr xs \<Rightarrow> Inr (x # xs))"

text \<open>\<open>a + b\<close> on values that are an integer or \<open>None\<close>: \<open>None\<close> has no addition.\<close>

fun py_add :: "int option \<Rightarrow> int option \<Rightarrow> error + int" where
  "py_add (Some a) (Some b) = Inr (a + b)"
| "py_add _ _ = Inl TypeError"

subsection \<open>Slices and indexing\<close>

datatype slice = Slice (slice_start: "int option") (slice_stop: "int option") (slice_step: "int option")

text \<open>
  A request is \<open>None\<close> or an index value: a slice, a list of integers, or (standing for
  every other shape the array library accepts) a single integer.
\<close>

datatype index = ISlice slice | IList "int list" | IInt int

text \<open>
  What indexing a column gives: a block of rows for a slice or a list, one row for an
  integer.
\<close>

datatype 'a selection = Rows "'a list" | Row 'a

text \<open>
  A column is the list of its rows along the first dimension (a row stands for whatever
  lies in the remaining dimensions). The array libraries (h5py datasets, numpy arrays) are
  outside the repository; their \<open>__getitem__\<close> is modelled by Python's sequence protocol:
  \<open>slice.indices(len)\<close> normalises the bounds, negative positions count from the end,
  a zero step is a \<open>ValueError\<close>, a position out of range is an \<open>IndexError\<close>.
\<close>

definition slice_indices :: "slice \<Rightarrow> int \<Rightarrow> error + (int \<times> int \<times> int)" where
  "slice_indices s len =
     (let stp = (case slice_step s of None \<Rightarrow> 1 | Some k \<Rightarrow> k) in
      if stp = 0 then Inl ValueError
      else
        let lower = (if stp < 0 then - 1 else 0);
            upper = (if stp < 0 then len - 1 else len);
            a = (case slice_start s of
                   None \<Rightarrow> (if stp < 0 then upper else lower)
                 | Some x \<Rightarrow> (if x < 0 then max (x + len) lower else min x upper));
            b = (case slice_stop s of
                   None \<Rightarrow> (if stp < 0 then lower else upper)
                 | Some y \<Rightarrow> (if y < 0 then max (y + len) lower else min y upper))
        in Inr (a, b, stp))"

definition range_positions :: "int \<Rightarrow> int \<Rightarrow> int \<Rightarrow> int list" where
  "range_positions a b stp =
     (let n = (if 0 < stp then (if a < b then (b - a - 1) div stp + 1 else 0)
               else (if b < a then (a - b - 1) div (- stp) + 1 else 0))
      in map (\<lambda>k. a + int k * stp) [0..<nat n])"

definition getslice :: "'a list \<Rightarrow> slice \<Rightarrow> error + 'a list" where
  "getslice xs s =
     (case slice_indices s (int (length xs)) of
        Inl e \<Rightarrow> Inl e
      | Inr (a, b, stp) \<Rightarrow> Inr (map (\<lambda>i. xs ! nat i) (range_positions a b stp)))"

definition getrow :: "'a list \<Rightarrow> int \<Rightarrow> error + 'a" where
  "getrow xs i =
     (let n = int (length xs); j = (if i < 0 then i + n else i)
      in if 0 \<le> j \<and> j < n then Inr (xs ! nat j) else Inl IndexError)"

fun getitem :: "'a list \<Rightarrow> index \<Rightarrow> error + 'a selection" where
  "getitem xs (ISlice s) = (case getslice xs s of Inl e \<Rightarrow> Inl e | Inr rows \<Rightarrow> Inr (Rows rows))"
| "getitem xs (IList js) =
     (case sequence_sum (map (getrow xs) js) of Inl e \<Rightarrow> Inl e | Inr rows \<Rightarrow> Inr (Rows rows))"
| "getitem xs (IInt i) = (case getrow xs i of Inl e \<Rightarrow> Inl e | Inr r \<Rightarrow> Inr (Row r))"

section \<open>The physical file and the process-wide registry\<close>

text \<open>
  An HDF5 file as the class reads it: the data sources of the root group in the order
  \<open>keys()\<close>, \<open>values()\<close> and \<open>items()\<close> list them, and the attributes of the root
  group (a split is an attribute holding its start and stop). The file system maps a
  path to the file stored there; no method of the class writes to it.
\<close>

record 'a h5file =
  columns :: "(string \<times> 'a list) list"
  attrs :: "string \<rightharpoonup> int list"

type_synonym 'a filesystem = "string \<rightharpoonup> 'a h5file"

text \<open>
  An open \<open>h5py.File\<close>: the name it was opened with and a serial number telling two
  opens of one name apart.
\<close>

datatype handle = Handle (handle_name: string) (handle_serial: nat)

text \<open>
  \<open>ref_counts = defaultdict(int)\<close>: a value is the integer \<open>0\<close> that the default
  factory inserts, or the two-element list \<open>[handle, count]\<close>. Keys are state tokens: a
  path, or \<open>None\<close> when a caller passes no state. The world also logs every
  \<open>h5py.File(...)\<close> call and every \<open>close()\<close> of a handle.
\<close>

datatype rc_value = IntZero | Entry handle int

type_synonym token = "string option"

record world =
  ref_counts :: "token \<rightharpoonup> rc_value"
  opened :: "handle list"
  closed :: "handle list"

fun truthy :: "rc_value \<Rightarrow> bool" where
  "truthy IntZero = False"
| "truthy (Entry h n) = True"

text \<open>\<open>ref_counts[k]\<close>: a missing key is inserted with the default \<open>0\<close>.\<close>

definition defaultdict_getitem :: "token \<Rightarrow> (world, rc_value) action" where
  "defaultdict_getitem k = (\<lambda>w.
     case ref_counts w k of
       None \<Rightarrow> (Inr IntZero, w\<lparr>ref_counts := (ref_counts w)(k \<mapsto> IntZero)\<rparr>)
     | Some v \<Rightarrow> (Inr v, w))"

definition defaultdict_setitem :: "token \<Rightarrow> rc_value \<Rightarrow> (world, unit) action" where
  "defaultdict_setitem k v = (\<lambda>w. (Inr (), w\<lparr>ref_counts := (ref_counts w)(k \<mapsto> v)\<rparr>))"

text \<open>\<open>value[0]\<close> and \<open>value[1]\<close>: the integer \<open>0\<close> is not subscriptable.\<close>

fun rc_item0 :: "rc_value \<Rightarrow> error + handle" where
  "rc_item0 IntZero = Inl TypeError"
| "rc_item0 (Entry h n) = Inr h"

fun rc_item1 :: "rc_value \<Rightarrow> error + int" where
  "rc_item1 IntZero = Inl TypeError"
| "rc_item1 (Entry h n) = Inr n"

text \<open>\<open>h5py.File(name=..., mode="r", driver=...)\<close>; the driver does not change what is read.\<close>

definition h5py_File :: "'a filesystem \<Rightarrow> string \<Rightarrow> (world, handle) action" where
  "h5py_File fs name = (\<lambda>w.
     case fs name of
       None \<Rightarrow> (Inl IOError, w)
     | Some f \<Rightarrow> (let h = Handle name (length (opened w))
                 in (Inr h, w\<lparr>opened := opened w @ [h]\<rparr>)))"

text \<open>Reading the root group through a handle.\<close>

definition h5_read :: "'a filesystem \<Rightarrow> handle \<Rightarrow> error + 'a h5file" where
  "h5_read fs h = (case fs (handle_name h) of None \<Rightarrow> Inl IOError | Some f \<Rightarrow> Inr f)"

section \<open>The dataset view\<close>

text \<open>
  The attributes of an \<open>H5PYDataset\<close> instance. \<open>provides_sources_attr\<close> is the cache
  \<open>_provides_sources\<close> of the property; \<open>sources_attr\<close> is the \<open>sources\<close> keyword
  that the constructor hands to the base class (\<open>None\<close> when it is not given).
\<close>

record 'a H5PYDataset =
  path :: string
  which_set :: "string option"
  subset :: slice
  load_in_memory :: bool
  driver :: "string option"
  num_examples :: "int option"
  data_sources :: "'a list list option"
  provides_sources_attr :: "string list option"
  sources_attr :: "string list option"

type_synonym ('a, 'r) view_action = "('a H5PYDataset \<times> world, 'r) action"

definition in_world :: "(world, 'r) action \<Rightarrow> ('a, 'r) view_action" where
  "in_world m = (\<lambda>(self, w). case m w of (r, w') \<Rightarrow> (r, (self, w')))"

definition get_self :: "('a, 'a H5PYDataset) view_action" where
  "get_self = (\<lambda>(self, w). (Inr self, (self, w)))"

definition set_self :: "('a H5PYDataset \<Rightarrow> 'a H5PYDataset) \<Rightarrow> ('a, unit) view_action" where
  "set_self f = (\<lambda>(self, w). (Inr (), (f self, w)))"

text \<open>
  \<open>H5PYDataset.ref_counts[state][0]\<close>: the handle registered under a state token.
\<close>

definition ref_counts_handle :: "token \<Rightarrow> ('a, handle) view_action" where
  "ref_counts_handle state =
     py_bind (in_world (defaultdict_getitem state)) (\<lambda>v. lift (rc_item0 v))"

text \<open>
  \<open>_get_file_id\<close>: the key of the registry equal to \<open>self.path\<close> when there is one,
  \<open>self.path\<close> otherwise.
\<close>

definition get_file_id :: "('a, string) view_action" where
  "get_file_id = (\<lambda>(self, w).
     (case ref_counts w (Some (path self)) of
        None \<Rightarrow> (Inr (path self), (self, w))
      | Some v \<Rightarrow> (Inr (path self), (self, w))))"

text \<open>
  \<open>_out_of_memory_open\<close>. The test is the truth value of the registry's value: \<open>0\<close>
  is false, a list \<open>[handle, count]\<close> is true whatever the count. The other branch reads
  the handle and leaves the list as it is.
\<close>

definition out_of_memory_open :: "'a filesystem \<Rightarrow> ('a, string) view_action" where
  "out_of_memory_open fs =
     py_bind get_file_id (\<lambda>file_id.
     py_bind (in_world (defaultdict_getitem (Some file_id))) (\<lambda>v.
       if \<not> truthy v then
         py_bind (in_world (h5py_File fs file_id)) (\<lambda>handle.
         py_bind (in_world (defaultdict_setitem (Some file_id) (Entry handle 1))) (\<lambda>_.
         py_return file_id))
       else
         py_bind (ref_counts_handle (Some file_id)) (\<lambda>handle.
         py_return file_id)))"

text \<open>
  \<open>_out_of_memory_close\<close>. The count is decremented in place; the test that follows is
  again the truth value of the list. Its body names \<open>H5PyDataset\<close>, which the module
  does not define, so entering it would raise \<open>NameError\<close> before any \<open>close()\<close>.
\<close>

definition out_of_memory_close :: "token \<Rightarrow> ('a, unit) view_action" where
  "out_of_memory_close state =
     py_bind (in_world (defaultdict_getitem state)) (\<lambda>v.
     py_bind (lift (rc_item1 v)) (\<lambda>n.
     py_bind (lift (rc_item0 v)) (\<lambda>h.
     py_bind (in_world (defaultdict_setitem state (Entry h (n - 1)))) (\<lambda>_.
     py_bind (in_world (defaultdict_getitem state)) (\<lambda>v'.
       if \<not> truthy v' then py_raise NameError else py_return ())))))"

text \<open>The property \<open>provides_sources\<close>: the names of the file's data sources, cached.\<close>

definition provides_sources :: "'a filesystem \<Rightarrow> ('a, string list) view_action" where
  "provides_sources fs =
     py_bind get_self (\<lambda>self.
       case provides_sources_attr self of
         Some ps \<Rightarrow> py_return ps
       | None \<Rightarrow>
           py_bind (out_of_memory_open fs) (\<lambda>ref.
           py_bind (ref_counts_handle (Some ref)) (\<lambda>handle.
           py_bind (lift (h5_read fs handle)) (\<lambda>f.
           py_bind (set_self (\<lambda>s. s\<lparr>provides_sources_attr := Some (map fst (columns f))\<rparr>)) (\<lambda>_.
           py_bind (out_of_memory_close (Some ref)) (\<lambda>_.
           py_return (map fst (columns f))))))))"

text \<open>
  Modelled from the spec: the attribute \<open>sources\<close> of the base class
  (\<open>fuel.datasets.Dataset\<close> is not among the source files). The view exposes the columns
  requested at construction, and every column the file provides when none was requested.
\<close>

definition sources :: "'a filesystem \<Rightarrow> ('a, string list) view_action" where
  "sources fs =
     py_bind get_self (\<lambda>self.
       case sources_attr self of
         Some srcs \<Rightarrow> py_return srcs
       | None \<Rightarrow> provides_sources fs)"

text \<open>
  Modelled from the spec: \<open>filter_sources\<close> of the base class
  (\<open>fuel.datasets.Dataset\<close> is not among the source files), the default source filtering
  that "filters results to the requested columns". It receives the results by position,
  so it pairs them with the names the file provides, in order, and keeps a result when its
  name is among the view's sources.
\<close>

definition filter_sources :: "'a filesystem \<Rightarrow> 'b list \<Rightarrow> ('a, 'b list) view_action" where
  "filter_sources fs data =
     py_bind (provides_sources fs) (\<lambda>ps.
     py_bind (sources fs) (\<lambda>srcs.
     py_return (map fst (filter (\<lambda>(d, s). s \<in> set srcs) (zip data ps)))))"

subsection \<open>Loading\<close>

text \<open>
  Lines 145 to 155 of \<open>load\<close>, which only read the file and the view: the check that
  the first dimensions agree, the check of the step, the base range (the split's
  attribute when \<open>which_set\<close> is true as a Python value, that is neither \<open>None\<close> nor
  the empty string, and \<open>(0, shapes[0][0])\<close> otherwise), and the new subset.
\<close>

definition split_resolution :: "'a h5file \<Rightarrow> string option \<Rightarrow> slice \<Rightarrow> error + slice" where
  "split_resolution f ws sub =
     (let shapes = map (\<lambda>(name, ds). length ds) (columns f) in
      if list_ex (\<lambda>s. s \<noteq> hd shapes) shapes then Inl ValueError
      else if slice_step sub \<noteq> Some 1 \<and> slice_step sub \<noteq> None then Inl ValueError
      else
        (case (case ws of
                 Some (c # cs) \<Rightarrow>
                   (case attrs f (c # cs) of
                      None \<Rightarrow> Inl KeyError
                    | Some [a, b] \<Rightarrow> Inr (a, b)
                    | Some _ \<Rightarrow> Inl ValueError)
               | _ \<Rightarrow> (case shapes of [] \<Rightarrow> Inl IndexError | n # _ \<Rightarrow> Inr (0, int n))) of
           Inl e \<Rightarrow> Inl e
         | Inr (start, stop) \<Rightarrow>
             Inr (Slice (case slice_start sub of None \<Rightarrow> Some start | Some x \<Rightarrow> Some x)
                        (case slice_stop sub of None \<Rightarrow> Some stop | Some y \<Rightarrow> Some y)
                        (slice_step sub))))"

fun py_sub :: "int option \<Rightarrow> int option \<Rightarrow> error + int" where
  "py_sub (Some a) (Some b) = Inr (a - b)"
| "py_sub _ _ = Inl TypeError"

text \<open>
  The comprehension of lines 158 to 160: for each item of the file, in order, the
  condition reads \<open>self.sources\<close>, and a column that passes is sliced by the subset.
\<close>

fun in_memory_copy :: "'a filesystem \<Rightarrow> slice \<Rightarrow> (string \<times> 'a list) list \<Rightarrow> ('a, 'a list list) view_action" where
  "in_memory_copy fs sub [] = py_return []"
| "in_memory_copy fs sub ((source_name, data_source) # rest) =
     py_bind (sources fs) (\<lambda>srcs.
       if source_name \<in> set srcs then
         py_bind (lift (getslice data_source sub)) (\<lambda>x.
         py_bind (in_memory_copy fs sub rest) (\<lambda>xs.
         py_return (x # xs)))
       else in_memory_copy fs sub rest)"

definition load :: "'a filesystem \<Rightarrow> ('a, unit) view_action" where
  "load fs =
     py_bind (out_of_memory_open fs) (\<lambda>ref.
     py_bind (ref_counts_handle (Some ref)) (\<lambda>handle.
     py_bind (lift (h5_read fs handle)) (\<lambda>f.
     py_bind get_self (\<lambda>self.
     py_bind (lift (split_resolution f (which_set self) (subset self))) (\<lambda>sub.
     py_bind (set_self (\<lambda>s. s\<lparr>subset := sub\<rparr>)) (\<lambda>_.
     py_bind (lift (py_sub (slice_stop sub) (slice_start sub))) (\<lambda>n.
     py_bind (set_self (\<lambda>s. s\<lparr>num_examples := Some n\<rparr>)) (\<lambda>_.
     py_bind (if load_in_memory self
              then py_bind (in_memory_copy fs sub (columns f)) (\<lambda>ds.
                   set_self (\<lambda>s. s\<lparr>data_sources := Some ds\<rparr>))
              else set_self (\<lambda>s. s\<lparr>data_sources := None\<rparr>)) (\<lambda>_.
     out_of_memory_close (Some ref))))))))))"

subsection \<open>Opening, closing and reading\<close>

definition open_dataset :: "'a filesystem \<Rightarrow> ('a, token) view_action" where
  "open_dataset fs =
     py_bind get_self (\<lambda>self.
       if load_in_memory self then py_return None
       else py_bind (out_of_memory_open fs) (\<lambda>file_id. py_return (Some file_id)))"

definition close_dataset :: "token \<Rightarrow> ('a, unit) view_action" where
  "close_dataset state =
     py_bind get_self (\<lambda>self.
       if \<not> load_in_memory self then out_of_memory_close state else py_return ())"

definition in_memory_get_data :: "'a filesystem \<Rightarrow> token \<Rightarrow> index option \<Rightarrow> ('a, 'a selection list) view_action" where
  "in_memory_get_data fs state request =
     (case request of
        None \<Rightarrow> py_raise ValueError
      | Some idx \<Rightarrow>
          if state \<noteq> None then py_raise ValueError
          else
            py_bind get_self (\<lambda>self.
              case data_sources self of
                None \<Rightarrow> py_raise TypeError
              | Some dss \<Rightarrow>
                  py_bind (lift (sequence_sum (map (\<lambda>data_source. getitem data_source idx) dss)))
                    (filter_sources fs)))"

text \<open>
  Lines 201 to 207: the request is translated, or rejected when it is neither a slice
  nor a list. Both bounds of a slice are added to \<open>self.subset.start\<close>.
\<close>

definition translate_request :: "slice \<Rightarrow> index option \<Rightarrow> error + index" where
  "translate_request sub request =
     (case request of
        Some (ISlice r) \<Rightarrow>
          (case py_add (slice_start r) (slice_start sub) of
             Inl e \<Rightarrow> Inl e
           | Inr a \<Rightarrow>
               (case py_add (slice_stop r) (slice_start sub) of
                  Inl e \<Rightarrow> Inl e
                | Inr b \<Rightarrow> Inr (ISlice (Slice (Some a) (Some b) (slice_step r)))))
      | Some (IList js) \<Rightarrow>
          (case sequence_sum (map (\<lambda>index. py_add (Some index) (slice_start sub)) js) of
             Inl e \<Rightarrow> Inl e
           | Inr js' \<Rightarrow> Inr (IList js'))
      | _ \<Rightarrow> Inl ValueError)"

definition out_of_memory_get_data :: "'a filesystem \<Rightarrow> token \<Rightarrow> index option \<Rightarrow> ('a, 'a selection list) view_action" where
  "out_of_memory_get_data fs state request =
     py_bind get_self (\<lambda>self.
     py_bind (lift (translate_request (subset self) request)) (\<lambda>request'.
     py_bind (ref_counts_handle state) (\<lambda>handle.
     py_bind (lift (h5_read fs handle)) (\<lambda>f.
     py_bind (lift (sequence_sum (map (\<lambda>data_source. getitem data_source request')
                                      (map snd (columns f)))))
       (filter_sources fs)))))"

definition get_data :: "'a filesystem \<Rightarrow> token \<Rightarrow> index option \<Rightarrow> ('a, 'a selection list) view_action" where
  "get_data fs state request =
     py_bind get_self (\<lambda>self.
       if load_in_memory self then in_memory_get_data fs state request
       else out_of_memory_get_data fs state request)"

subsection \<open>Construction\<close>

text \<open>
  Modelled from the spec: the constructor of the base class (\<open>fuel.datasets.Dataset\<close> is
  not among the source files). The base "consumes \<open>provides_sources\<close>", which is computed
  on this first access, and records the columns requested with the \<open>sources\<close> keyword.
\<close>

definition Dataset_init :: "'a filesystem \<Rightarrow> string list option \<Rightarrow> ('a, unit) view_action" where
  "Dataset_init fs srcs =
     py_bind (provides_sources fs) (\<lambda>ps.
       case srcs of
         None \<Rightarrow> py_return ()
       | Some requested \<Rightarrow> set_self (\<lambda>s. s\<lparr>sources_attr := Some requested\<rparr>))"

text \<open>
  \<open>__init__\<close>: the attributes are stored (a subset that is not given becomes
  \<open>slice(None, None, None)\<close>; a slice object is always true), the base class is
  initialised with the remaining keywords, and the view is loaded.
\<close>

definition new_view :: "string \<Rightarrow> string option \<Rightarrow> slice option \<Rightarrow> bool \<Rightarrow> string option \<Rightarrow> 'a H5PYDataset" where
  "new_view p ws sub in_memory drv =
     \<lparr>path = p, which_set = ws,
      subset = (case sub of None \<Rightarrow> Slice None None None | Some s \<Rightarrow> s),
      load_in_memory = in_memory, driver = drv,
      num_examples = None, data_sources = None,
      provides_sources_attr = None, sources_attr = None\<rparr>"

definition H5PYDataset_init ::
  "'a filesystem \<Rightarrow> string \<Rightarrow> string option \<Rightarrow> slice option \<Rightarrow> bool \<Rightarrow> string option \<Rightarrow>
   string list option \<Rightarrow> world \<Rightarrow> (error + unit) \<times> 'a H5PYDataset \<times> world" where
  "H5PYDataset_init fs p ws sub in_memory drv srcs w =
     py_bind (Dataset_init fs srcs) (\<lambda>_. load fs) (new_view p ws sub in_memory drv, w)"

definition empty_world :: world where
  "empty_world = \<lparr>ref_counts = Map.empty, opened = [], closed = []\<rparr>"

section \<open>Example files and views\<close>

text \<open>
  A small file with the two data sources \<open>features\<close> and \<open>targets\<close> (four examples)
  and the splits \<open>train\<close> and \<open>test\<close>, stored at \<open>data.hdf5\<close>.
\<close>

definition small_file :: "int h5file" where
  "small_file =
     \<lparr>columns = [(''features'', [10, 11, 12, 13]), (''targets'', [0, 1, 0, 1])],
      attrs = [''train'' \<mapsto> [0, 3], ''test'' \<mapsto> [3, 4]]\<rparr>"

definition small_fs :: "int filesystem" where
  "small_fs = [''data.hdf5'' \<mapsto> small_file]"

text \<open>Two streamed views of that path, as \<open>__init__\<close> stores their attributes.\<close>

definition view_a :: "int H5PYDataset" where
  "view_a = new_view ''data.hdf5'' None None False None"

definition view_b :: "int H5PYDataset" where
  "view_b = new_view ''data.hdf5'' (Some ''test'') None False None"

text \<open>
  Running a method of one view and then a method of another view in the world the first
  one left.
\<close>

definition then_on :: "('a, 'r) view_action \<Rightarrow> 'a H5PYDataset \<Rightarrow> ('r \<Rightarrow> ('a, 'q) view_action) \<Rightarrow> ('a, 'q) view_action" where
  "then_on m other k = (\<lambda>s.
     case m s of
       (Inl e, (self, w)) \<Rightarrow> (Inl e, (other, w))
     | (Inr x, (self, w)) \<Rightarrow> k x (other, w))"

text \<open>
  The file of the scenario: the columns \<open>features\<close> and \<open>targets\<close>, and the split
  attribute \<open>test = [80, 100]\<close>.
\<close>

definition features_targets_file :: "'a list \<Rightarrow> 'a list \<Rightarrow> 'a h5file" where
  "features_targets_file features targets =
     \<lparr>columns = [(''features'', features), (''targets'', targets)],
      attrs = [''test'' \<mapsto> [80, 100]]\<rparr>"

text \<open>
  The view that \<open>__init__\<close> builds from the empty registry for \<open>data.hdf5\<close> with
  \<open>which_set = "test"\<close>, in either mode, and the world it leaves.
\<close>

definition loaded_world :: world where
  "loaded_world =
     \<lparr>ref_counts = [Some ''data.hdf5'' \<mapsto> Entry (Handle ''data.hdf5'' 0) (- 1)],
      opened = [Handle ''data.hdf5'' 0], closed = []\<rparr>"

definition test_view :: "bool \<Rightarrow> int H5PYDataset" where
  "test_view in_memory =
     (new_view ''data.hdf5'' (Some ''test'') None in_memory None)
       \<lparr>subset := Slice (Some 3) (Some 4) None, num_examples := Some 1,
        data_sources := (if in_memory then Some [[13], [1]] else None),
        provides_sources_attr := Some [''features'', ''targets'']\<rparr>"

section \<open>Notions used to state the properties\<close>

text \<open>
  The file a view of path \<open>p\<close> reads in a world: through the handle registered for \<open>p\<close>
  when there is an entry, and otherwise the file stored at \<open>p\<close>, which is then opened.
\<close>

definition registered_file :: "'a filesystem \<Rightarrow> world \<Rightarrow> string \<Rightarrow> 'a h5file option" where
  "registered_file fs w p =
     (case ref_counts w (Some p) of
        Some (Entry h n) \<Rightarrow> fs (handle_name h)
      | _ \<Rightarrow> fs p)"

text \<open>
  What \<open>provides_sources\<close> returns for a view that reads the file \<open>f\<close>: the cached names,
  or the names of the data sources of \<open>f\<close>.
\<close>

definition provided :: "'a h5file \<Rightarrow> 'a H5PYDataset \<Rightarrow> string list" where
  "provided f self =
     (case provides_sources_attr self of Some ps \<Rightarrow> ps | None \<Rightarrow> map fst (columns f))"

text \<open>
  The columns the view exposes: what \<open>sources\<close> returns.
\<close>

definition exposed :: "'a h5file \<Rightarrow> 'a H5PYDataset \<Rightarrow> string list" where
  "exposed f self = (case sources_attr self of Some srcs \<Rightarrow> srcs | None \<Rightarrow> provided f self)"

text \<open>
  The local copy an in-memory view holds after \<open>load\<close>: the subset of every exposed column.
\<close>

definition in_memory_data :: "'a h5file \<Rightarrow> slice \<Rightarrow> 'a H5PYDataset \<Rightarrow> 'a list list" where
  "in_memory_data f sub self =
     map (\<lambda>(name, ds). projr (getslice ds sub))
       (filter (\<lambda>(name, ds). name \<in> set (exposed f self)) (columns f))"

text \<open>
  The registry holds an entry for \<open>p\<close> whose handle reads the file \<open>f\<close>.
\<close>

definition entry_reads :: "'a filesystem \<Rightarrow> world \<Rightarrow> string \<Rightarrow> 'a h5file \<Rightarrow> bool" where
  "entry_reads fs w p f \<longleftrightarrow>
     (case ref_counts w (Some p) of
        Some (Entry h n) \<Rightarrow> fs (handle_name h) = Some f
      | _ \<Rightarrow> False)"

text \<open>
  \<open>d if x is None else x\<close>.
\<close>

definition given_or :: "int option \<Rightarrow> int \<Rightarrow> int" where
  "given_or x d = (case x of None \<Rightarrow> d | Some v \<Rightarrow> v)"

text \<open>
  What \<open>filter_sources\<close> keeps of per-column results, for a view that reads the file \<open>f\<close>.
\<close>

definition keep_exposed :: "'a h5file \<Rightarrow> 'a H5PYDataset \<Rightarrow> 'b list \<Rightarrow> 'b list" where
  "keep_exposed f self data =
     map fst (filter (\<lambda>(d, s). s \<in> set (exposed f self)) (zip data (provided f self)))"

text \<open>
  Indexing every column of the physical file with one index and keeping the results of
  the exposed columns.
\<close>

definition read_columns :: "'a h5file \<Rightarrow> 'a H5PYDataset \<Rightarrow> index \<Rightarrow> error + 'a selection list" where
  "read_columns f self idx =
     (case sequence_sum (map (\<lambda>data_source. getitem data_source idx) (map snd (columns f))) of
        Inl e \<Rightarrow> Inl e
      | Inr data \<Rightarrow> Inr (keep_exposed f self data))"

section \<open>The registry\<close>

lemmas action_defs =
  py_bind_def py_return_def py_raise_def lift_def in_world_def get_self_def set_self_def

lemmas registry_defs =
  Let_def out_of_memory_open_def out_of_memory_close_def get_file_id_def
  ref_counts_handle_def defaultdict_getitem_def defaultdict_setitem_def h5py_File_def

lemma ref_counts_handle_entry:
  "ref_counts w state = Some (Entry h n) \<Longrightarrow>
   ref_counts_handle state (self, w) = (Inr h, (self, w))"
  by (simp add: ref_counts_handle_def defaultdict_getitem_def action_defs)

lemma ref_counts_handle_zero:
  "ref_counts w state = Some IntZero \<Longrightarrow>
   ref_counts_handle state (self, w) = (Inl TypeError, (self, w))"
  by (simp add: ref_counts_handle_def defaultdict_getitem_def action_defs)

lemma ref_counts_handle_missing:
  "ref_counts w state = None \<Longrightarrow>
   ref_counts_handle state (self, w) =
     (Inl TypeError, (self, w\<lparr>ref_counts := (ref_counts w)(state \<mapsto> IntZero)\<rparr>))"
  by (simp add: ref_counts_handle_def defaultdict_getitem_def action_defs)

lemma out_of_memory_open_entry:
  "ref_counts w (Some (path self)) = Some (Entry h n) \<Longrightarrow>
   out_of_memory_open fs (self, w) = (Inr (path self), (self, w))"
  by (simp add: registry_defs action_defs)

lemma out_of_memory_open_fresh:
  "ref_counts w (Some (path self)) = None \<or> ref_counts w (Some (path self)) = Some IntZero \<Longrightarrow>
   fs (path self) = Some f \<Longrightarrow>
   out_of_memory_open fs (self, w) =
     (Inr (path self),
      (self, w\<lparr>ref_counts := (ref_counts w)(Some (path self) \<mapsto>
                   Entry (Handle (path self) (length (opened w))) 1),
               opened := opened w @ [Handle (path self) (length (opened w))]\<rparr>))"
  by (auto simp add: registry_defs action_defs)

lemma out_of_memory_open_absent:
  "ref_counts w (Some (path self)) = None \<or> ref_counts w (Some (path self)) = Some IntZero \<Longrightarrow>
   fs (path self) = None \<Longrightarrow>
   fst (out_of_memory_open fs (self, w)) = Inl IOError"
  by (auto simp add: registry_defs action_defs)

lemma out_of_memory_close_entry:
  "ref_counts w state = Some (Entry h n) \<Longrightarrow>
   out_of_memory_close state (self, w) =
     (Inr (), (self, w\<lparr>ref_counts := (ref_counts w)(state \<mapsto> Entry h (n - 1))\<rparr>))"
  by (simp add: registry_defs action_defs)

lemma out_of_memory_close_zero:
  "ref_counts w state = Some IntZero \<Longrightarrow>
   out_of_memory_close state (self, w) = (Inl TypeError, (self, w))"
  by (simp add: registry_defs action_defs)

lemma out_of_memory_close_missing:
  "ref_counts w state = None \<Longrightarrow>
   out_of_memory_close state (self, w) =
     (Inl TypeError, (self, w\<lparr>ref_counts := (ref_counts w)(state \<mapsto> IntZero)\<rparr>))"
  by (simp add: registry_defs action_defs)

text \<open>
  Whatever its outcome, \<open>_out_of_memory_close\<close> closes no handle and removes no key.
\<close>

lemma out_of_memory_close_frame:
  assumes "out_of_memory_close state (self, w) = (r, (self', w'))"
  shows "self' = self \<and> closed w' = closed w \<and> opened w' = opened w
         \<and> dom (ref_counts w) \<subseteq> dom (ref_counts w')"
proof (cases "ref_counts w state")
  case None
  with assms show ?thesis by (auto simp add: out_of_memory_close_missing)
next
  case (Some v)
  with assms show ?thesis
    by (cases v) (auto simp add: out_of_memory_close_zero out_of_memory_close_entry)
qed

text \<open>
  C1. One acquisition of \<open>data.hdf5\<close> followed by one release, from the empty registry:
  both calls return, and the registry still holds the entry for the path, now with the
  count zero; the file was opened once and no handle was closed.
\<close>

theorem acquire_release_leaves_zero_count_entry:
  "(case py_bind (out_of_memory_open small_fs) (\<lambda>ref. out_of_memory_close (Some ref))
           (view_a, empty_world) of
      (r, (self, w)) \<Rightarrow>
        r = Inr ()
        \<and> ref_counts w (Some ''data.hdf5'') = Some (Entry (Handle ''data.hdf5'' 0) 0)
        \<and> opened w = [Handle ''data.hdf5'' 0]
        \<and> closed w = [])"
  by (simp add: registry_defs action_defs small_fs_def view_a_def new_view_def empty_world_def)

text \<open>
  C2. Two views acquire \<open>data.hdf5\<close> one after the other, from the empty registry: the
  second acquisition returns the same file id and opens nothing, and the count of the
  entry is still one.
\<close>

theorem second_acquire_leaves_count_one:
  "(case then_on (out_of_memory_open small_fs) view_b (\<lambda>ref. out_of_memory_open small_fs)
           (view_a, empty_world) of
      (r, (self, w)) \<Rightarrow>
        r = Inr ''data.hdf5''
        \<and> ref_counts w (Some ''data.hdf5'') = Some (Entry (Handle ''data.hdf5'' 0) 1)
        \<and> opened w = [Handle ''data.hdf5'' 0])"
  by (simp add: registry_defs action_defs then_on_def small_fs_def view_a_def view_b_def
      new_view_def empty_world_def)

text \<open>
  C3. Two views open \<open>data.hdf5\<close> and both close it again; the lookup
  \<open>ref_counts[state][0]\<close> that follows still returns the handle, and the entry's count is
  \<open>-1\<close>.
\<close>

theorem handle_registered_after_both_closed:
  "(case then_on (open_dataset small_fs) view_b (\<lambda>state_a.
         then_on (open_dataset small_fs) view_a (\<lambda>state_b.
         then_on (close_dataset state_a) view_b (\<lambda>_.
         py_bind (close_dataset state_b) (\<lambda>_.
         ref_counts_handle state_b))))
           (view_a, empty_world) of
      (r, (self, w)) \<Rightarrow>
        r = Inr (Handle ''data.hdf5'' 0)
        \<and> ref_counts w (Some ''data.hdf5'') = Some (Entry (Handle ''data.hdf5'' 0) (- 1))
        \<and> closed w = [])"
  by (simp add: registry_defs action_defs then_on_def open_dataset_def close_dataset_def
      small_fs_def view_a_def view_b_def new_view_def empty_world_def)

section \<open>Slicing\<close>

lemma map_nth_offset:
  "a + m \<le> length xs \<Longrightarrow> map (\<lambda>k. xs ! (a + k)) [0..<m] = take m (drop a xs)"
  by (rule nth_equalityI) auto

lemma range_positions_unit:
  "range_positions a b 1 = map (\<lambda>k. a + int k) [0..<nat (b - a)]"
  by (simp add: range_positions_def)

lemma getslice_nonneg:
  assumes "0 \<le> a" "a \<le> b" "st = None \<or> st = Some 1"
  shows "getslice xs (Slice (Some a) (Some b) st) = Inr (take (nat (b - a)) (drop (nat a) xs))"
proof -
  let ?n = "int (length xs)"
  have ind: "slice_indices (Slice (Some a) (Some b) st) ?n = Inr (min a ?n, min b ?n, 1)"
    using assms by (auto simp add: slice_indices_def Let_def)
  have "map (\<lambda>i. xs ! nat i) (range_positions (min a ?n) (min b ?n) 1)
        = map (\<lambda>k. xs ! (nat (min a ?n) + k)) [0..<nat (min b ?n - min a ?n)]"
    using assms by (simp add: range_positions_unit nat_add_distrib o_def)
  also have "\<dots> = take (nat (min b ?n - min a ?n)) (drop (nat (min a ?n)) xs)"
    using assms by (intro map_nth_offset) (auto simp add: min_def)
  also have "\<dots> = take (nat (b - a)) (drop (nat a) xs)"
    using assms by (auto simp add: min_def)
  finally show ?thesis by (simp add: getslice_def ind)
qed

lemma getslice_total:
  "slice_step s \<noteq> Some 0 \<Longrightarrow> \<exists>rows. getslice xs s = Inr rows"
  by (cases "slice_step s") (auto simp add: getslice_def slice_indices_def Let_def)

section \<open>Loading\<close>

lemma world_update_same [simp]:
  "ref_counts w k = Some v \<Longrightarrow> w\<lparr>ref_counts := (ref_counts w)(k \<mapsto> v)\<rparr> = w"
  by (simp add: map_upd_triv)

lemma open_registered:
  assumes "registered_file fs w (path self) = Some f"
  shows "\<exists>h n w1. out_of_memory_open fs (self, w) = (Inr (path self), (self, w1))
           \<and> ref_counts w1 (Some (path self)) = Some (Entry h n)
           \<and> fs (handle_name h) = Some f \<and> closed w1 = closed w"
proof (cases "ref_counts w (Some (path self))")
  case None
  with assms show ?thesis
    by (simp add: registered_file_def out_of_memory_open_fresh)
next
  case (Some v)
  with assms show ?thesis
    by (cases v) (simp_all add: registered_file_def out_of_memory_open_fresh out_of_memory_open_entry)
qed

lemma provides_sources_cached:
  "provides_sources_attr self = Some ps \<Longrightarrow> provides_sources fs (self, w) = (Inr ps, (self, w))"
  by (simp add: provides_sources_def action_defs)

lemma provides_sources_entry:
  assumes "ref_counts w (Some (path self)) = Some (Entry h n)" "fs (handle_name h) = Some f"
  shows "\<exists>n'. provides_sources fs (self, w) =
           (Inr (provided f self),
            (self\<lparr>provides_sources_attr := Some (provided f self)\<rparr>,
             w\<lparr>ref_counts := (ref_counts w)(Some (path self) \<mapsto> Entry h n')\<rparr>))"
proof (cases "provides_sources_attr self")
  case None
  have "provides_sources fs (self, w) =
           (Inr (map fst (columns f)),
            (self\<lparr>provides_sources_attr := Some (map fst (columns f))\<rparr>,
             w\<lparr>ref_counts := (ref_counts w)(Some (path self) \<mapsto> Entry h (n - 1))\<rparr>))"
    using assms None
    by (simp add: provides_sources_def py_bind_def get_self_def set_self_def py_return_def lift_def
        out_of_memory_open_entry ref_counts_handle_entry h5_read_def out_of_memory_close_entry)
  with None show ?thesis by (auto simp add: provided_def)
next
  case (Some ps)
  then have "provides_sources fs (self, w) = (Inr ps, (self, w))"
    by (rule provides_sources_cached)
  moreover have "self\<lparr>provides_sources_attr := Some ps\<rparr> = self"
    using Some by simp
  moreover have "w\<lparr>ref_counts := (ref_counts w)(Some (path self) \<mapsto> Entry h n)\<rparr> = w"
    using assms by simp
  ultimately show ?thesis using Some by (intro exI[of _ n]) (simp add: provided_def)
qed

lemma sources_entry:
  assumes "ref_counts w (Some (path self)) = Some (Entry h n)" "fs (handle_name h) = Some f"
  shows "\<exists>c n'. sources fs (self, w) =
           (Inr (exposed f self),
            (self\<lparr>provides_sources_attr := c\<rparr>,
             w\<lparr>ref_counts := (ref_counts w)(Some (path self) \<mapsto> Entry h n')\<rparr>))
         \<and> exposed f (self\<lparr>provides_sources_attr := c\<rparr>) = exposed f self
         \<and> provided f (self\<lparr>provides_sources_attr := c\<rparr>) = provided f self"
proof (cases "sources_attr self")
  case (Some srcs)
  have "sources fs (self, w) = (Inr srcs, (self, w))"
    using Some by (simp add: sources_def py_bind_def get_self_def py_return_def)
  moreover have "w\<lparr>ref_counts := (ref_counts w)(Some (path self) \<mapsto> Entry h n)\<rparr> = w"
    using assms by simp
  ultimately show ?thesis
    using Some
    by (intro exI[of _ "provides_sources_attr self"] exI[of _ n]) (simp add: exposed_def)
next
  case None
  obtain n' where "provides_sources fs (self, w) =
           (Inr (provided f self),
            (self\<lparr>provides_sources_attr := Some (provided f self)\<rparr>,
             w\<lparr>ref_counts := (ref_counts w)(Some (path self) \<mapsto> Entry h n')\<rparr>))"
    using provides_sources_entry[where fs=fs and f=f, OF assms] by blast
  then have "sources fs (self, w) =
           (Inr (provided f self),
            (self\<lparr>provides_sources_attr := Some (provided f self)\<rparr>,
             w\<lparr>ref_counts := (ref_counts w)(Some (path self) \<mapsto> Entry h n')\<rparr>))"
    using None by (simp add: sources_def py_bind_def get_self_def)
  then show ?thesis
    using None
    by (intro exI[of _ "Some (provided f self)"] exI[of _ n'])
       (simp add: exposed_def provided_def)
qed

lemma in_memory_copy_entry:
  assumes "ref_counts w (Some (path self)) = Some (Entry h n)" "fs (handle_name h) = Some f"
    and "slice_step sub \<noteq> Some 0"
  shows "\<exists>c n'. in_memory_copy fs sub items (self, w) =
           (Inr (map (\<lambda>(name, ds). projr (getslice ds sub))
                   (filter (\<lambda>(name, ds). name \<in> set (exposed f self)) items)),
            (self\<lparr>provides_sources_attr := c\<rparr>,
             w\<lparr>ref_counts := (ref_counts w)(Some (path self) \<mapsto> Entry h n')\<rparr>))
         \<and> exposed f (self\<lparr>provides_sources_attr := c\<rparr>) = exposed f self
         \<and> provided f (self\<lparr>provides_sources_attr := c\<rparr>) = provided f self"
  using assms(1)
proof (induction items arbitrary: self w n)
  case Nil
  then show ?case
    by (intro exI[of _ "provides_sources_attr self"] exI[of _ n]) (simp add: py_return_def map_upd_triv)
next
  case (Cons item items)
  obtain name ds where item: "item = (name, ds)" by (cases item)
  obtain c1 n1 where src: "sources fs (self, w) =
           (Inr (exposed f self),
            (self\<lparr>provides_sources_attr := c1\<rparr>,
             w\<lparr>ref_counts := (ref_counts w)(Some (path self) \<mapsto> Entry h n1)\<rparr>))"
    and e1: "exposed f (self\<lparr>provides_sources_attr := c1\<rparr>) = exposed f self"
    and p1: "provided f (self\<lparr>provides_sources_attr := c1\<rparr>) = provided f self"
    using sources_entry[where fs=fs and f=f, OF Cons.prems assms(2)] by blast
  let ?self1 = "self\<lparr>provides_sources_attr := c1\<rparr>"
  let ?w1 = "w\<lparr>ref_counts := (ref_counts w)(Some (path self) \<mapsto> Entry h n1)\<rparr>"
  have entry1: "ref_counts ?w1 (Some (path ?self1)) = Some (Entry h n1)" by simp
  obtain c2 n2 where rest: "in_memory_copy fs sub items (?self1, ?w1) =
           (Inr (map (\<lambda>(name, ds). projr (getslice ds sub))
                   (filter (\<lambda>(name, ds). name \<in> set (exposed f ?self1)) items)),
            (?self1\<lparr>provides_sources_attr := c2\<rparr>,
             ?w1\<lparr>ref_counts := (ref_counts ?w1)(Some (path ?self1) \<mapsto> Entry h n2)\<rparr>))"
    and e2: "exposed f (?self1\<lparr>provides_sources_attr := c2\<rparr>) = exposed f ?self1"
    and p2: "provided f (?self1\<lparr>provides_sources_attr := c2\<rparr>) = provided f ?self1"
    using Cons.IH[OF entry1] by blast
  obtain rows where rows: "getslice ds sub = Inr rows"
    using getslice_total[of sub ds] assms(3) by blast
  have "in_memory_copy fs sub (item # items) (self, w) =
           (Inr (map (\<lambda>(name, ds). projr (getslice ds sub))
                   (filter (\<lambda>(name, ds). name \<in> set (exposed f self)) (item # items))),
            (self\<lparr>provides_sources_attr := c2\<rparr>,
             w\<lparr>ref_counts := (ref_counts w)(Some (path self) \<mapsto> Entry h n2)\<rparr>))"
    using src rest rows e1
    by (simp add: item py_bind_def lift_def py_return_def)
  moreover have "exposed f (self\<lparr>provides_sources_attr := c2\<rparr>) = exposed f self"
    using e1 e2 by simp
  moreover have "provided f (self\<lparr>provides_sources_attr := c2\<rparr>) = provided f self"
    using p1 p2 by simp
  ultimately show ?case by blast
qed

lemma split_resolution_Inr:
  assumes "split_resolution f ws sub = Inr sub'"
  shows "\<exists>a b. sub' = Slice (Some a) (Some b) (slice_step sub)
           \<and> (slice_step sub = None \<or> slice_step sub = Some 1)"
  using assms
  by (auto simp add: split_resolution_def Let_def
      split: if_splits sum.splits prod.splits option.splits)

lemma entry_reads_iff:
  "entry_reads fs w p f \<longleftrightarrow>
     (\<exists>h n. ref_counts w (Some p) = Some (Entry h n) \<and> fs (handle_name h) = Some f)"
  by (auto simp add: entry_reads_def split: option.splits rc_value.splits)

lemma entry_reads_registered:
  "entry_reads fs w p f \<Longrightarrow> registered_file fs w p = Some f"
  by (auto simp add: entry_reads_iff registered_file_def)

lemma provided_eqI:
  "provides_sources_attr s' = provides_sources_attr s \<Longrightarrow> provided f s' = provided f s"
  by (simp add: provided_def)

lemma exposed_eqI:
  "sources_attr s' = sources_attr s \<Longrightarrow> provided f s' = provided f s \<Longrightarrow>
   exposed f s' = exposed f s"
  by (simp add: exposed_def split: option.splits)

lemma load_registered:
  assumes reg: "registered_file fs w (path self) = Some f"
    and res: "split_resolution f (which_set self) (subset self) = Inr (Slice (Some a) (Some b) st)"
  shows "\<exists>self' w'. load fs (self, w) = (Inr (), (self', w'))
          \<and> subset self' = Slice (Some a) (Some b) st
          \<and> num_examples self' = Some (b - a)
          \<and> data_sources self' =
                (if load_in_memory self
                 then Some (in_memory_data f (Slice (Some a) (Some b) st) self) else None)
          \<and> path self' = path self \<and> which_set self' = which_set self
          \<and> load_in_memory self' = load_in_memory self
          \<and> sources_attr self' = sources_attr self
          \<and> exposed f self' = exposed f self \<and> provided f self' = provided f self
          \<and> entry_reads fs w' (path self) f \<and> closed w' = closed w"
proof -
  let ?sub = "Slice (Some a) (Some b) st"
  obtain h n w1 where op: "out_of_memory_open fs (self, w) = (Inr (path self), (self, w1))"
    and entry: "ref_counts w1 (Some (path self)) = Some (Entry h n)"
    and hfile: "fs (handle_name h) = Some f"
    and cl: "closed w1 = closed w"
    using open_registered[OF reg] by blast
  have step: "slice_step ?sub \<noteq> Some 0"
    using split_resolution_Inr[OF res] by auto
  let ?self1 = "self\<lparr>subset := ?sub, num_examples := Some (b - a)\<rparr>"
  have entry1: "ref_counts w1 (Some (path ?self1)) = Some (Entry h n)"
    using entry by simp
  show ?thesis
  proof (cases "load_in_memory self")
    case False
    have "load fs (self, w) =
           (Inr (), (?self1\<lparr>data_sources := None\<rparr>,
                     w1\<lparr>ref_counts := (ref_counts w1)(Some (path self) \<mapsto> Entry h (n - 1))\<rparr>))"
      using op entry hfile res False
      by (simp add: load_def py_bind_def get_self_def set_self_def lift_def h5_read_def
          ref_counts_handle_entry out_of_memory_close_entry)
    moreover have pr0: "provided f (?self1\<lparr>data_sources := None\<rparr>) = provided f self"
      by (rule provided_eqI) simp
    moreover have "exposed f (?self1\<lparr>data_sources := None\<rparr>) = exposed f self"
      by (rule exposed_eqI) (simp_all add: pr0)
    ultimately show ?thesis
      using False hfile cl by (simp add: entry_reads_def)
  next
    case True
    obtain c2 n2 where copy: "in_memory_copy fs ?sub (columns f) (?self1, w1) =
           (Inr (map (\<lambda>(name, ds). projr (getslice ds ?sub))
                   (filter (\<lambda>(name, ds). name \<in> set (exposed f ?self1)) (columns f))),
            (?self1\<lparr>provides_sources_attr := c2\<rparr>,
             w1\<lparr>ref_counts := (ref_counts w1)(Some (path ?self1) \<mapsto> Entry h n2)\<rparr>))"
      and e2: "exposed f (?self1\<lparr>provides_sources_attr := c2\<rparr>) = exposed f ?self1"
      and p2: "provided f (?self1\<lparr>provides_sources_attr := c2\<rparr>) = provided f ?self1"
      using in_memory_copy_entry[where fs=fs and f=f, OF entry1 hfile step] by blast
    have pr: "provided f ?self1 = provided f self"
      by (rule provided_eqI) simp
    have ex: "exposed f ?self1 = exposed f self"
      by (rule exposed_eqI) (simp_all add: pr)
    let ?self2 = "?self1\<lparr>provides_sources_attr := c2,
                            data_sources := Some (in_memory_data f ?sub self)\<rparr>"
    have "load fs (self, w) =
           (Inr (), (?self2,
                     w1\<lparr>ref_counts := (ref_counts w1)(Some (path self) \<mapsto> Entry h (n2 - 1))\<rparr>))"
      using op entry hfile res True copy ex
      by (simp add: load_def py_bind_def get_self_def set_self_def lift_def h5_read_def
          ref_counts_handle_entry out_of_memory_close_entry in_memory_data_def)
    moreover have pr2: "provided f ?self2 = provided f (?self1\<lparr>provides_sources_attr := c2\<rparr>)"
      by (rule provided_eqI) simp
    moreover have "exposed f ?self2 = exposed f (?self1\<lparr>provides_sources_attr := c2\<rparr>)"
      by (rule exposed_eqI) (simp_all add: pr2)
    ultimately show ?thesis
      using True hfile cl ex pr e2 p2 by (simp add: entry_reads_def)
  qed
qed

lemma lengths_agree:
  assumes "\<forall>(name, ds) \<in> set cols. length ds = len"
  shows "\<not> list_ex (\<lambda>s. s \<noteq> hd (map (\<lambda>(name, ds). length ds) cols))
            (map (\<lambda>(name, ds). length ds) cols)"
proof (cases cols)
  case Nil
  then show ?thesis by simp
next
  case (Cons c cs)
  with assms show ?thesis by (auto simp add: list_ex_iff)
qed

lemma split_resolution_named:
  assumes "\<forall>(name, ds) \<in> set (columns f). length ds = len"
    and "slice_step sub = None \<or> slice_step sub = Some 1"
    and "s \<noteq> []" "attrs f s = Some [a, b]"
  shows "split_resolution f (Some s) sub =
           Inr (Slice (Some (given_or (slice_start sub) a)) (Some (given_or (slice_stop sub) b))
                  (slice_step sub))"
proof -
  obtain c cs where s: "s = c # cs" using assms(3) by (cases s) auto
  show ?thesis
    using lengths_agree[OF assms(1)] assms(2,4)
    by (auto simp add: split_resolution_def s given_or_def split: option.splits)
qed

lemma split_resolution_whole:
  assumes "\<forall>(name, ds) \<in> set (columns f). length ds = len"
    and "slice_step sub = None \<or> slice_step sub = Some 1"
    and "ws = None \<or> ws = Some []" "columns f \<noteq> []"
  shows "split_resolution f ws sub =
           Inr (Slice (Some (given_or (slice_start sub) 0)) (Some (given_or (slice_stop sub) (int len)))
                  (slice_step sub))"
proof -
  obtain name ds cs where c: "columns f = (name, ds) # cs"
    using assms(4) by (cases "columns f") auto
  then have "length ds = len" using assms(1) by auto
  then show ?thesis
    using lengths_agree[OF assms(1)] assms(2,3) c
    by (auto simp add: split_resolution_def given_or_def split: option.splits)
qed

lemma split_resolution_idem:
  assumes "split_resolution f ws sub = Inr sub'"
  shows "split_resolution f ws sub' = Inr sub'"
  using assms
  by (auto simp add: split_resolution_def Let_def
      split: if_splits sum.splits prod.splits option.splits)

text \<open>
  C4. Let a view read the file \<open>f\<close>, whose columns all have the first-dimension length
  \<open>len\<close>, and let the step of its subset be \<open>1\<close> or unspecified. Let \<open>(a, b)\<close> be the
  base range: the pair stored under the split name when \<open>which_set\<close> names a split (a
  non-empty name, since the code tests the truth value of \<open>which_set\<close>), and \<open>(0, len)\<close>
  when \<open>which_set\<close> is unspecified. Then \<open>load\<close> returns, and the resolved range is the
  subset's start where it is given and \<open>a\<close> where it is not, and the subset's stop where it
  is given and \<open>b\<close> where it is not; \<open>num_examples\<close> is their difference. In particular
  a subset \<open>(x, y)\<close> with \<open>a \<le> x \<le> y \<le> b\<close> resolves to exactly \<open>(x, y)\<close>.
\<close>

theorem load_resolves_split:
  fixes self :: "'a H5PYDataset"
  assumes "registered_file fs w (path self) = Some f"
    and "\<forall>(name, ds) \<in> set (columns f). length ds = len"
    and "slice_step (subset self) = None \<or> slice_step (subset self) = Some 1"
    and "(\<exists>s. which_set self = Some s \<and> s \<noteq> [] \<and> attrs f s = Some [a, b])
         \<or> ((which_set self = None \<or> which_set self = Some []) \<and> columns f \<noteq> []
             \<and> a = 0 \<and> b = int len)"
  shows "\<exists>self' w'. load fs (self, w) = (Inr (), (self', w'))
           \<and> subset self' = Slice (Some (given_or (slice_start (subset self)) a))
                                   (Some (given_or (slice_stop (subset self)) b))
                                   (slice_step (subset self))
           \<and> num_examples self' =
                Some (given_or (slice_stop (subset self)) b - given_or (slice_start (subset self)) a)"
proof -
  have "split_resolution f (which_set self) (subset self) =
          Inr (Slice (Some (given_or (slice_start (subset self)) a))
                     (Some (given_or (slice_stop (subset self)) b))
                     (slice_step (subset self)))"
    using assms(4)
  proof
    assume "\<exists>s. which_set self = Some s \<and> s \<noteq> [] \<and> attrs f s = Some [a, b]"
    then show ?thesis
      using split_resolution_named[OF assms(2,3)] by auto
  next
    assume "(which_set self = None \<or> which_set self = Some []) \<and> columns f \<noteq> []
             \<and> a = 0 \<and> b = int len"
    then show ?thesis
      using split_resolution_whole[OF assms(2,3)] by auto
  qed
  from load_registered[OF assms(1) this] show ?thesis by blast
qed

theorem load_resolves_split_witness:
  "\<exists>self' w'. load small_fs (view_b, empty_world) = (Inr (), (self', w'))
      \<and> subset self' = Slice (Some 3) (Some 4) None \<and> num_examples self' = Some 1"
  using load_resolves_split[of small_fs empty_world view_b small_file 4 3 4]
  by (simp add: registered_file_def small_fs_def small_file_def view_b_def new_view_def
      empty_world_def given_or_def)

text \<open>When \<open>load\<close> fails: the file cannot be read, or the resolution raises.\<close>

lemma load_unreadable:
  assumes "registered_file fs w (path self) = None"
  shows "\<exists>e s. load fs (self, w) = (Inl e, s)"
proof (cases "ref_counts w (Some (path self))")
  case None
  then have "fst (out_of_memory_open fs (self, w)) = Inl IOError"
    using assms by (intro out_of_memory_open_absent) (simp_all add: registered_file_def)
  then obtain s where "out_of_memory_open fs (self, w) = (Inl IOError, s)"
    by (cases "out_of_memory_open fs (self, w)") auto
  then show ?thesis by (simp add: load_def py_bind_def)
next
  case (Some v)
  show ?thesis
  proof (cases v)
    case IntZero
    then have "fst (out_of_memory_open fs (self, w)) = Inl IOError"
      using assms Some by (intro out_of_memory_open_absent) (simp_all add: registered_file_def)
    then obtain s where "out_of_memory_open fs (self, w) = (Inl IOError, s)"
      by (cases "out_of_memory_open fs (self, w)") auto
    then show ?thesis by (simp add: load_def py_bind_def)
  next
    case (Entry h n)
    then show ?thesis
      using assms Some
      by (simp add: load_def py_bind_def lift_def registered_file_def h5_read_def
          out_of_memory_open_entry ref_counts_handle_entry)
  qed
qed

lemma load_unresolved:
  assumes "registered_file fs w (path self) = Some f"
    and "split_resolution f (which_set self) (subset self) = Inl e"
  shows "\<exists>s. load fs (self, w) = (Inl e, s)"
proof -
  obtain h n w1 where "out_of_memory_open fs (self, w) = (Inr (path self), (self, w1))"
    and "ref_counts w1 (Some (path self)) = Some (Entry h n)"
    and "fs (handle_name h) = Some f"
    using open_registered[OF assms(1)] by blast
  then show ?thesis
    using assms(2)
    by (simp add: load_def py_bind_def lift_def get_self_def h5_read_def ref_counts_handle_entry)
qed

text \<open>
  C9. If \<open>load\<close> returns, then a second \<open>load\<close> of the resulting view, in the world the
  first one left and over the same file system, returns as well, and the view has the
  same subset (start, stop and step) and the same \<open>num_examples\<close> as after the first.
\<close>

theorem load_twice_same_range:
  assumes "load fs (self, w) = (Inr (), (self1, w1))"
  shows "\<exists>self2 w2. load fs (self1, w1) = (Inr (), (self2, w2))
           \<and> subset self2 = subset self1 \<and> num_examples self2 = num_examples self1"
proof -
  obtain f where reg: "registered_file fs w (path self) = Some f"
    using load_unreadable[of fs w self] assms by (cases "registered_file fs w (path self)") auto
  obtain sub where res: "split_resolution f (which_set self) (subset self) = Inr sub"
    using load_unresolved[OF reg] assms
    by (cases "split_resolution f (which_set self) (subset self)") auto
  obtain a b where sub: "sub = Slice (Some a) (Some b) (slice_step (subset self))"
    using split_resolution_Inr[OF res] by blast
  have first: "subset self1 = sub" "num_examples self1 = Some (b - a)"
    "path self1 = path self" "which_set self1 = which_set self"
    "entry_reads fs w1 (path self) f"
    using load_registered[OF reg res[unfolded sub]] assms sub by auto
  have reg1: "registered_file fs w1 (path self1) = Some f"
    using first by (simp add: entry_reads_registered)
  have res1: "split_resolution f (which_set self1) (subset self1) =
                Inr (Slice (Some a) (Some b) (slice_step (subset self)))"
    using split_resolution_idem[OF res] first sub by simp
  show ?thesis
    using load_registered[OF reg1 res1] first sub by auto
qed

lemmas load_defs =
  load_def split_resolution_def sources_def provides_sources_def
  h5_read_def

theorem load_twice_same_range_witness:
  "\<exists>self1 w1 self2 w2. load small_fs (view_b, empty_world) = (Inr (), (self1, w1))
      \<and> load small_fs (self1, w1) = (Inr (), (self2, w2))
      \<and> subset self2 = subset self1 \<and> num_examples self2 = num_examples self1
      \<and> subset self1 = Slice (Some 3) (Some 4) None \<and> num_examples self1 = Some 1"
proof -
  let ?self1 = "view_b\<lparr>subset := Slice (Some 3) (Some 4) None, num_examples := Some 1\<rparr>"
  let ?w1 = "\<lparr>ref_counts = [Some ''data.hdf5'' \<mapsto> Entry (Handle ''data.hdf5'' 0) 0],
              opened = [Handle ''data.hdf5'' 0], closed = []\<rparr>"
  have first: "load small_fs (view_b, empty_world) = (Inr (), (?self1, ?w1))"
    by (simp add: load_defs registry_defs action_defs small_fs_def small_file_def view_b_def
        new_view_def empty_world_def)
  have "subset ?self1 = Slice (Some 3) (Some 4) None" "num_examples ?self1 = Some 1"
    by simp_all
  with load_twice_same_range[OF first] first show ?thesis by blast
qed

section \<open>Reading data\<close>

lemma filter_sources_cached:
  assumes "provides_sources_attr self = Some ps"
  shows "filter_sources fs data (self, w) = (Inr (keep_exposed f self data), (self, w))"
  using assms
  by (cases "sources_attr self")
     (simp_all add: filter_sources_def sources_def py_bind_def get_self_def py_return_def
        provides_sources_cached keep_exposed_def exposed_def provided_def)

lemma filter_sources_entry:
  assumes "ref_counts w (Some (path self)) = Some (Entry h n)" "fs (handle_name h) = Some f"
  shows "\<exists>c n'. filter_sources fs data (self, w) =
           (Inr (keep_exposed f self data),
            (self\<lparr>provides_sources_attr := c\<rparr>,
             w\<lparr>ref_counts := (ref_counts w)(Some (path self) \<mapsto> Entry h n')\<rparr>))"
proof -
  obtain n' where ps: "provides_sources fs (self, w) =
           (Inr (provided f self),
            (self\<lparr>provides_sources_attr := Some (provided f self)\<rparr>,
             w\<lparr>ref_counts := (ref_counts w)(Some (path self) \<mapsto> Entry h n')\<rparr>))"
    using provides_sources_entry[where fs=fs and f=f, OF assms] by blast
  let ?self1 = "self\<lparr>provides_sources_attr := Some (provided f self)\<rparr>"
  let ?w1 = "w\<lparr>ref_counts := (ref_counts w)(Some (path self) \<mapsto> Entry h n')\<rparr>"
  have "sources fs (?self1, ?w1) = (Inr (exposed f self), (?self1, ?w1))"
    by (cases "sources_attr self")
       (simp_all add: sources_def py_bind_def get_self_def py_return_def
          provides_sources_cached exposed_def)
  with ps have "filter_sources fs data (self, w) = (Inr (keep_exposed f self data), (?self1, ?w1))"
    by (simp add: filter_sources_def py_bind_def py_return_def keep_exposed_def)
  then show ?thesis by blast
qed

lemma translate_slice:
  "translate_request sub (Some (ISlice (Slice (Some i) (Some j) st))) =
     (case slice_start sub of
        None \<Rightarrow> Inl TypeError
      | Some s \<Rightarrow> Inr (ISlice (Slice (Some (i + s)) (Some (j + s)) st)))"
  by (simp add: translate_request_def split: option.splits)

lemma sequence_sum_Inr: "sequence_sum (map Inr xs) = Inr xs"
  by (induction xs) simp_all

lemma translate_list:
  "translate_request sub (Some (IList js)) =
     (case slice_start sub of
        None \<Rightarrow> (if js = [] then Inr (IList []) else Inl TypeError)
      | Some s \<Rightarrow> Inr (IList (map (\<lambda>index. index + s) js)))"
proof (cases "slice_start sub")
  case None
  then show ?thesis by (cases js) (simp_all add: translate_request_def)
next
  case (Some s)
  have "map (\<lambda>index. py_add (Some index) (Some s)) js = map Inr (map (\<lambda>index. index + s) js)"
    by simp
  then show ?thesis
    using Some by (simp add: translate_request_def sequence_sum_Inr del: map_map)
qed

lemma out_of_memory_get_data_entry:
  assumes "translate_request (subset self) request = Inr idx"
    and "ref_counts w (Some (path self)) = Some (Entry h n)" "fs (handle_name h) = Some f"
  shows "fst (out_of_memory_get_data fs (Some (path self)) request (self, w)) = read_columns f self idx"
proof (cases "sequence_sum (map (\<lambda>data_source. getitem data_source idx) (map snd (columns f)))")
  case (Inl e)
  then show ?thesis
    using assms
    by (simp add: out_of_memory_get_data_def py_bind_def get_self_def lift_def h5_read_def
        ref_counts_handle_entry read_columns_def)
next
  case (Inr data)
  obtain c n' where "filter_sources fs data (self, w) =
           (Inr (keep_exposed f self data),
            (self\<lparr>provides_sources_attr := c\<rparr>,
             w\<lparr>ref_counts := (ref_counts w)(Some (path self) \<mapsto> Entry h n')\<rparr>))"
    using filter_sources_entry[where fs=fs and f=f, OF assms(2,3)] by blast
  then show ?thesis
    using assms Inr
    by (simp add: out_of_memory_get_data_def py_bind_def get_self_def lift_def h5_read_def
        ref_counts_handle_entry read_columns_def)
qed

lemma test_split_scenario:
  assumes "length features = 100" "length targets = 100"
    and fs: "fs = [''data.hdf5'' \<mapsto> features_targets_file features targets]"
  shows "\<exists>v w1 w2 state s3.
           H5PYDataset_init fs ''data.hdf5'' (Some ''test'') None in_memory None None empty_world
             = (Inr (), (v, w1))
           \<and> subset v = Slice (Some 80) (Some 100) None \<and> num_examples v = Some 20
           \<and> open_dataset fs (v, w1) = (Inr state, (v, w2))
           \<and> get_data fs state (Some (ISlice (Slice (Some 0) (Some 5) None))) (v, w2)
               = (Inr [Rows (take 5 (drop 80 features)), Rows (take 5 (drop 80 targets))], s3)"
proof (cases in_memory)
  case False
  let ?v = "(new_view ''data.hdf5'' (Some ''test'') None False None)
             \<lparr>subset := Slice (Some 80) (Some 100) None, num_examples := Some 20,
              provides_sources_attr := Some [''features'', ''targets'']\<rparr>"
  let ?w = "\<lparr>ref_counts = [Some ''data.hdf5'' \<mapsto> Entry (Handle ''data.hdf5'' 0) (- 1)],
            opened = [Handle ''data.hdf5'' 0], closed = []\<rparr>"
  have init: "H5PYDataset_init fs ''data.hdf5'' (Some ''test'') None in_memory None None empty_world
               = (Inr (), (?v, ?w))"
    using assms(1,2) False
    by (simp add: fs H5PYDataset_init_def Dataset_init_def load_defs registry_defs action_defs
        features_targets_file_def new_view_def empty_world_def)
  have op: "open_dataset fs (?v, ?w) = (Inr (Some ''data.hdf5''), (?v, ?w))"
    by (simp add: open_dataset_def registry_defs action_defs new_view_def)
  have "get_data fs (Some ''data.hdf5'') (Some (ISlice (Slice (Some 0) (Some 5) None))) (?v, ?w)
          = (Inr [Rows (take 5 (drop 80 features)), Rows (take 5 (drop 80 targets))], (?v, ?w))"
    using assms(1,2)
    by (simp add: fs get_data_def out_of_memory_get_data_def translate_request_def
        filter_sources_def sources_def provides_sources_def h5_read_def getslice_nonneg
        registry_defs action_defs features_targets_file_def new_view_def)
  with init op show ?thesis by (intro exI conjI) simp_all
next
  case True
  let ?v = "(new_view ''data.hdf5'' (Some ''test'') None True None)
             \<lparr>subset := Slice (Some 80) (Some 100) None, num_examples := Some 20,
              data_sources := Some [take 20 (drop 80 features), take 20 (drop 80 targets)],
              provides_sources_attr := Some [''features'', ''targets'']\<rparr>"
  let ?w = "\<lparr>ref_counts = [Some ''data.hdf5'' \<mapsto> Entry (Handle ''data.hdf5'' 0) (- 1)],
            opened = [Handle ''data.hdf5'' 0], closed = []\<rparr>"
  have init: "H5PYDataset_init fs ''data.hdf5'' (Some ''test'') None in_memory None None empty_world
               = (Inr (), (?v, ?w))"
    using assms(1,2) True
    by (simp add: fs H5PYDataset_init_def Dataset_init_def load_defs registry_defs action_defs
        getslice_nonneg features_targets_file_def new_view_def empty_world_def)
  have op: "open_dataset fs (?v, ?w) = (Inr None, (?v, ?w))"
    by (simp add: open_dataset_def action_defs new_view_def)
  have "get_data fs None (Some (ISlice (Slice (Some 0) (Some 5) None))) (?v, ?w)
          = (Inr [Rows (take 5 (drop 80 features)), Rows (take 5 (drop 80 targets))], (?v, ?w))"
    using assms(1,2)
    by (simp add: get_data_def in_memory_get_data_def
        filter_sources_def sources_def provides_sources_def getslice_nonneg
        action_defs new_view_def take_drop)
  with init op show ?thesis by (intro exI conjI) simp_all
qed

lemma getitem_slice_total:
  "slice_step r \<noteq> Some 0 \<Longrightarrow> getitem ds (ISlice r) = Inr (Rows (projr (getslice ds r)))"
  using getslice_total[of r ds] by auto

lemma sequence_sum_map_Inr:
  "(\<And>x. x \<in> set xs \<Longrightarrow> g x = Inr (h x)) \<Longrightarrow> sequence_sum (map g xs) = Inr (map h xs)"
  by (induction xs) simp_all

text \<open>
  C6. A streamed view whose resolved range starts at \<open>s\<close>, given the token of its open
  file, answers the slice request \<open>[i, j)\<close> with what indexing the file's columns by the
  slice \<open>[i + s, j + s)\<close> (same step) gives, and an index list with what indexing by the
  list of the indices plus \<open>s\<close> gives. Concretely, for a file with columns \<open>features\<close>
  and \<open>targets\<close> of first-dimension length 100 and the split \<open>test = [80, 100]\<close>, the
  view constructed with \<open>which_set = "test"\<close> and no subset has the resolved range
  \<open>(80, 100)\<close> and \<open>num_examples = 20\<close>, and \<open>get_data\<close> with the state that \<open>open\<close>
  returns and the request \<open>slice(0, 5)\<close> returns \<open>features[80:85]\<close> and
  \<open>targets[80:85]\<close> (in either load mode).
\<close>

theorem get_data_translates_request:
  "(\<not> load_in_memory self \<longrightarrow> slice_start (subset self) = Some s \<longrightarrow>
      entry_reads fs w (path self) f \<longrightarrow>
        fst (get_data fs (Some (path self)) (Some (ISlice (Slice (Some i) (Some j) st))) (self, w))
          = read_columns f self (ISlice (Slice (Some (i + s)) (Some (j + s)) st))
        \<and> fst (get_data fs (Some (path self)) (Some (IList js)) (self, w))
          = read_columns f self (IList (map (\<lambda>index. index + s) js)))
   \<and> (length features = 100 \<longrightarrow> length targets = 100 \<longrightarrow>
        (\<exists>v w1 w2 state s3.
           H5PYDataset_init [''data.hdf5'' \<mapsto> features_targets_file features targets]
               ''data.hdf5'' (Some ''test'') None in_memory None None empty_world
             = (Inr (), (v, w1))
           \<and> subset v = Slice (Some 80) (Some 100) None \<and> num_examples v = Some 20
           \<and> open_dataset [''data.hdf5'' \<mapsto> features_targets_file features targets] (v, w1)
               = (Inr state, (v, w2))
           \<and> get_data [''data.hdf5'' \<mapsto> features_targets_file features targets] state
                 (Some (ISlice (Slice (Some 0) (Some 5) None))) (v, w2)
               = (Inr [Rows (take 5 (drop 80 features)), Rows (take 5 (drop 80 targets))], s3)))"
proof (intro conjI impI)
  assume streamed: "\<not> load_in_memory self" and s: "slice_start (subset self) = Some s"
    and "entry_reads fs w (path self) f"
  then obtain h n where entry: "ref_counts w (Some (path self)) = Some (Entry h n)"
    and hfile: "fs (handle_name h) = Some f"
    by (auto simp add: entry_reads_iff)
  have "fst (out_of_memory_get_data fs (Some (path self))
               (Some (ISlice (Slice (Some i) (Some j) st))) (self, w))
          = read_columns f self (ISlice (Slice (Some (i + s)) (Some (j + s)) st))"
    by (rule out_of_memory_get_data_entry[where fs=fs and f=f, OF _ entry hfile]) (simp add: translate_slice s)
  then show "fst (get_data fs (Some (path self)) (Some (ISlice (Slice (Some i) (Some j) st))) (self, w))
          = read_columns f self (ISlice (Slice (Some (i + s)) (Some (j + s)) st))"
    using streamed by (simp add: get_data_def py_bind_def get_self_def)
  have "fst (out_of_memory_get_data fs (Some (path self)) (Some (IList js)) (self, w))
          = read_columns f self (IList (map (\<lambda>index. index + s) js))"
    by (rule out_of_memory_get_data_entry[where fs=fs and f=f, OF _ entry hfile]) (simp add: translate_list s)
  then show "fst (get_data fs (Some (path self)) (Some (IList js)) (self, w))
          = read_columns f self (IList (map (\<lambda>index. index + s) js))"
    using streamed by (simp add: get_data_def py_bind_def get_self_def)
next
  assume "length features = 100" "length targets = 100"
  then show "\<exists>v w1 w2 state s3.
           H5PYDataset_init [''data.hdf5'' \<mapsto> features_targets_file features targets]
               ''data.hdf5'' (Some ''test'') None in_memory None None empty_world
             = (Inr (), (v, w1))
           \<and> subset v = Slice (Some 80) (Some 100) None \<and> num_examples v = Some 20
           \<and> open_dataset [''data.hdf5'' \<mapsto> features_targets_file features targets] (v, w1)
               = (Inr state, (v, w2))
           \<and> get_data [''data.hdf5'' \<mapsto> features_targets_file features targets] state
                 (Some (ISlice (Slice (Some 0) (Some 5) None))) (v, w2)
               = (Inr [Rows (take 5 (drop 80 features)), Rows (take 5 (drop 80 targets))], s3)"
    by (rule test_split_scenario) simp
qed

lemma test_view_init:
  "H5PYDataset_init small_fs ''data.hdf5'' (Some ''test'') None in_memory None None empty_world
     = (Inr (), (test_view in_memory, loaded_world))"
  by (cases in_memory)
     (simp_all add: H5PYDataset_init_def Dataset_init_def load_defs registry_defs action_defs
        getslice_def slice_indices_def range_positions_def
        small_fs_def small_file_def new_view_def empty_world_def test_view_def loaded_world_def)

theorem get_data_translates_request_witness:
  "\<not> load_in_memory (test_view False) \<and> slice_start (subset (test_view False)) = Some 3
   \<and> entry_reads small_fs loaded_world (path (test_view False)) small_file
   \<and> fst (get_data small_fs (Some ''data.hdf5'') (Some (ISlice (Slice (Some 0) (Some 1) None)))
            (test_view False, loaded_world)) = Inr [Rows [13], Rows [1]]
   \<and> fst (get_data small_fs (Some ''data.hdf5'') (Some (IList [0]))
            (test_view False, loaded_world)) = Inr [Rows [13], Rows [1]]
   \<and> length (map int [0..<100]) = 100"
  using get_data_translates_request[of "test_view False" 3 small_fs loaded_world small_file
          0 1 None "[0]" "map int [0..<100]" "map int [0..<100]"]
  by (simp add: test_view_def new_view_def loaded_world_def entry_reads_def small_fs_def
      small_file_def read_columns_def keep_exposed_def exposed_def provided_def
      getslice_def slice_indices_def range_positions_def getrow_def)

text \<open>
  C10. For a streamed view, a slice request whose start or stop is \<open>None\<close> makes
  \<open>get_data\<close> raise \<open>TypeError\<close> (the view's start is added to both bounds), whatever the
  state token and the registry. An in-memory view that holds its local copy accepts every
  slice with a non-zero step, open-ended ones included, and returns the slices of its
  local columns.
\<close>

theorem open_ended_slice_request:
  "(\<not> load_in_memory self \<longrightarrow> (slice_start r = None \<or> slice_stop r = None) \<longrightarrow>
      get_data fs state (Some (ISlice r)) (self, w) = (Inl TypeError, (self, w)))
   \<and> (load_in_memory self \<longrightarrow> data_sources self = Some dss \<longrightarrow>
        provides_sources_attr self = Some ps \<longrightarrow> slice_step r \<noteq> Some 0 \<longrightarrow>
        get_data fs None (Some (ISlice r)) (self, w) =
          (Inr (map fst (filter (\<lambda>(d, s). s \<in> set (case sources_attr self of
                                                       None \<Rightarrow> ps | Some srcs \<Rightarrow> srcs))
                           (zip (map (\<lambda>ds. Rows (projr (getslice ds r))) dss) ps))),
           (self, w)))"
proof (intro conjI impI)
  assume "\<not> load_in_memory self" "slice_start r = None \<or> slice_stop r = None"
  then have "translate_request (subset self) (Some (ISlice r)) = Inl TypeError"
    by (cases "slice_start r"; cases "slice_start (subset self)")
       (auto simp add: translate_request_def)
  then show "get_data fs state (Some (ISlice r)) (self, w) = (Inl TypeError, (self, w))"
    using \<open>\<not> load_in_memory self\<close>
    by (simp add: get_data_def out_of_memory_get_data_def py_bind_def get_self_def lift_def)
next
  assume mem: "load_in_memory self" and dss: "data_sources self = Some dss"
    and ps: "provides_sources_attr self = Some ps" and step: "slice_step r \<noteq> Some 0"
  have "sequence_sum (map (\<lambda>data_source. getitem data_source (ISlice r)) dss) =
          Inr (map (\<lambda>ds. Rows (projr (getslice ds r))) dss)"
    by (rule sequence_sum_map_Inr) (rule getitem_slice_total[OF step])
  then show "get_data fs None (Some (ISlice r)) (self, w) =
          (Inr (map fst (filter (\<lambda>(d, s). s \<in> set (case sources_attr self of
                                                       None \<Rightarrow> ps | Some srcs \<Rightarrow> srcs))
                           (zip (map (\<lambda>ds. Rows (projr (getslice ds r))) dss) ps))),
           (self, w))"
    using mem dss ps
    by (cases "sources_attr self")
       (simp_all add: get_data_def in_memory_get_data_def filter_sources_def sources_def
          provides_sources_cached py_bind_def get_self_def lift_def py_return_def)
qed

theorem open_ended_slice_request_witness:
  "\<not> load_in_memory (test_view False)
   \<and> get_data small_fs (Some ''data.hdf5'') (Some (ISlice (Slice None None None)))
        (test_view False, loaded_world) = (Inl TypeError, (test_view False, loaded_world))
   \<and> get_data small_fs (Some ''data.hdf5'') (Some (ISlice (Slice (Some 0) None None)))
        (test_view False, loaded_world) = (Inl TypeError, (test_view False, loaded_world))
   \<and> load_in_memory (test_view True) \<and> data_sources (test_view True) = Some [[13], [1]]
   \<and> get_data small_fs None (Some (ISlice (Slice None None None))) (test_view True, loaded_world)
        = (Inr [Rows [13], Rows [1]], (test_view True, loaded_world))"
  using open_ended_slice_request[of "test_view False" "Slice None None None" small_fs
          "Some ''data.hdf5''" loaded_world]
        open_ended_slice_request[of "test_view False" "Slice (Some 0) None None" small_fs
          "Some ''data.hdf5''" loaded_world]
        open_ended_slice_request[where self="test_view True" and r="Slice None None None"
          and dss="[[13], [1]]" and ps="[''features'', ''targets'']" and fs=small_fs
          and w=loaded_world]
  by (simp add: test_view_def new_view_def getslice_def slice_indices_def range_positions_def)

text \<open>
  What an in-memory view that holds its local copy and has cached the provided names
  returns for a request that is not \<open>None\<close>, when no state is passed.
\<close>

lemma in_memory_get_data_index:
  assumes "load_in_memory self" "data_sources self = Some dss"
    and "provides_sources_attr self = Some ps"
  shows "get_data fs None (Some idx) (self, w) =
          (case sequence_sum (map (\<lambda>data_source. getitem data_source idx) dss) of
             Inl e \<Rightarrow> (Inl e, (self, w))
           | Inr data \<Rightarrow>
               (Inr (map fst (filter (\<lambda>(d, s). s \<in> set (case sources_attr self of
                                                            None \<Rightarrow> ps | Some srcs \<Rightarrow> srcs))
                                (zip data ps))),
                (self, w)))"
  using assms
  by (cases "sources_attr self";
      cases "sequence_sum (map (\<lambda>data_source. getitem data_source idx) dss)")
     (simp_all add: get_data_def in_memory_get_data_def filter_sources_def sources_def
        provides_sources_cached py_bind_def get_self_def lift_def py_return_def)

lemma keep_all:
  assumes "length xs = length ys"
  shows "map fst (filter (\<lambda>(d, s). s \<in> set ys) (zip xs ys)) = xs"
proof -
  have "filter (\<lambda>(d, s). s \<in> set ys) (zip xs ys) = zip xs ys"
    by (rule filter_True) (auto dest: set_zip_rightD)
  then show ?thesis using assms by simp
qed

lemma rows_of_integer:
  assumes "0 \<le> k" "\<forall>ds \<in> set dss. k < int (length ds)"
  shows "sequence_sum (map (\<lambda>data_source. getitem data_source (IInt k)) dss)
           = Inr (map (\<lambda>ds. Row (ds ! nat k)) dss)"
  using assms by (intro sequence_sum_map_Inr) (simp add: getrow_def)

text \<open>
  C8, as amended. For a streamed view, every request that is neither a slice nor a list
  makes \<open>get_data\<close> raise \<open>ValueError\<close>. For an in-memory view, \<open>get_data\<close> raises
  \<open>ValueError\<close> when the request is \<open>None\<close> or a state is passed. Any other request to
  an in-memory view that holds its local copy is handed to the indexing of the local
  arrays: each local array is indexed with the request as it is, the first error of an
  array is the error of \<open>get_data\<close>, and otherwise the results go through
  \<open>filter_sources\<close>. In particular an integer index that is in range for every local
  array of a view exposing all its columns returns one row per column.
\<close>

theorem unsupported_request_shapes:
  "(\<not> load_in_memory self \<longrightarrow> (\<forall>r. request \<noteq> Some (ISlice r)) \<longrightarrow>
      (\<forall>js. request \<noteq> Some (IList js)) \<longrightarrow>
      get_data fs state request (self, w) = (Inl ValueError, (self, w)))
   \<and> (load_in_memory self \<longrightarrow> (request = None \<or> state \<noteq> None) \<longrightarrow>
        get_data fs state request (self, w) = (Inl ValueError, (self, w)))
   \<and> (load_in_memory self \<longrightarrow> data_sources self = Some dss \<longrightarrow>
        provides_sources_attr self = Some ps \<longrightarrow>
        get_data fs None (Some idx) (self, w) =
          (case sequence_sum (map (\<lambda>data_source. getitem data_source idx) dss) of
             Inl e \<Rightarrow> (Inl e, (self, w))
           | Inr data \<Rightarrow>
               (Inr (map fst (filter (\<lambda>(d, s). s \<in> set (case sources_attr self of
                                                            None \<Rightarrow> ps | Some srcs \<Rightarrow> srcs))
                                (zip data ps))),
                (self, w))))
   \<and> (load_in_memory self \<longrightarrow> data_sources self = Some dss \<longrightarrow>
        provides_sources_attr self = Some ps \<longrightarrow> sources_attr self = None \<longrightarrow>
        length dss = length ps \<longrightarrow> 0 \<le> k \<longrightarrow> (\<forall>ds \<in> set dss. k < int (length ds)) \<longrightarrow>
        get_data fs None (Some (IInt k)) (self, w) =
          (Inr (map (\<lambda>ds. Row (ds ! nat k)) dss), (self, w)))"
proof (intro conjI impI)
  assume "\<not> load_in_memory self" "\<forall>r. request \<noteq> Some (ISlice r)" "\<forall>js. request \<noteq> Some (IList js)"
  moreover from this have "translate_request (subset self) request = Inl ValueError"
    by (auto simp add: translate_request_def split: option.splits index.splits)
  ultimately show "get_data fs state request (self, w) = (Inl ValueError, (self, w))"
    by (simp add: get_data_def out_of_memory_get_data_def py_bind_def get_self_def lift_def)
next
  assume "load_in_memory self" "request = None \<or> state \<noteq> None"
  then show "get_data fs state request (self, w) = (Inl ValueError, (self, w))"
    by (auto simp add: get_data_def in_memory_get_data_def py_bind_def get_self_def py_raise_def
        split: option.splits)
next
  assume "load_in_memory self" "data_sources self = Some dss" "provides_sources_attr self = Some ps"
  then show "get_data fs None (Some idx) (self, w) =
          (case sequence_sum (map (\<lambda>data_source. getitem data_source idx) dss) of
             Inl e \<Rightarrow> (Inl e, (self, w))
           | Inr data \<Rightarrow>
               (Inr (map fst (filter (\<lambda>(d, s). s \<in> set (case sources_attr self of
                                                            None \<Rightarrow> ps | Some srcs \<Rightarrow> srcs))
                                (zip data ps))),
                (self, w)))"
    by (rule in_memory_get_data_index)
next
  assume mem: "load_in_memory self" "data_sources self = Some dss"
      "provides_sources_attr self = Some ps"
    and all: "sources_attr self = None" "length dss = length ps"
    and k: "0 \<le> k" "\<forall>ds \<in> set dss. k < int (length ds)"
  have "map fst (filter (\<lambda>(d, s). s \<in> set ps) (zip (map (\<lambda>ds. Row (ds ! nat k)) dss) ps))
          = map (\<lambda>ds. Row (ds ! nat k)) dss"
    by (rule keep_all) (simp add: all)
  then show "get_data fs None (Some (IInt k)) (self, w) =
          (Inr (map (\<lambda>ds. Row (ds ! nat k)) dss), (self, w))"
    using in_memory_get_data_index[where fs=fs and w=w and idx="IInt k", OF mem]
      rows_of_integer[OF k] all
    by simp
qed

theorem unsupported_request_shapes_witness:
  "\<not> load_in_memory (test_view False)
   \<and> get_data small_fs (Some ''data.hdf5'') (Some (IInt 0)) (test_view False, loaded_world)
       = (Inl ValueError, (test_view False, loaded_world))
   \<and> get_data small_fs (Some ''data.hdf5'') None (test_view False, loaded_world)
       = (Inl ValueError, (test_view False, loaded_world))
   \<and> load_in_memory (test_view True)
   \<and> get_data small_fs None None (test_view True, loaded_world)
       = (Inl ValueError, (test_view True, loaded_world))
   \<and> get_data small_fs (Some ''data.hdf5'') (Some (IInt 0)) (test_view True, loaded_world)
       = (Inl ValueError, (test_view True, loaded_world))
   \<and> data_sources (test_view True) = Some [[13], [1]]
   \<and> provides_sources_attr (test_view True) = Some [''features'', ''targets'']
   \<and> sources_attr (test_view True) = None
   \<and> get_data small_fs None (Some (IInt 0)) (test_view True, loaded_world)
       = (Inr [Row 13, Row 1], (test_view True, loaded_world))
   \<and> get_data small_fs None (Some (IInt (- 1))) (test_view True, loaded_world)
       = (Inr [Row 13, Row 1], (test_view True, loaded_world))
   \<and> get_data small_fs None (Some (IInt 1)) (test_view True, loaded_world)
       = (Inl IndexError, (test_view True, loaded_world))
   \<and> get_data small_fs None (Some (IList [0, 0])) (test_view True, loaded_world)
       = (Inr [Rows [13, 13], Rows [1, 1]], (test_view True, loaded_world))"
  using unsupported_request_shapes[where self="test_view False" and request="Some (IInt 0)"
          and fs=small_fs and state="Some ''data.hdf5''" and w=loaded_world]
        unsupported_request_shapes[where self="test_view False" and request=None
          and fs=small_fs and state="Some ''data.hdf5''" and w=loaded_world]
        unsupported_request_shapes[where self="test_view True" and request=None
          and fs=small_fs and state=None and w=loaded_world]
        unsupported_request_shapes[where self="test_view True" and request="Some (IInt 0)"
          and fs=small_fs and state="Some ''data.hdf5''" and w=loaded_world
          and dss="[[13], [1]]" and ps="[''features'', ''targets'']" and k=0
          and idx="IInt (- 1)"]
        unsupported_request_shapes[where self="test_view True" and fs=small_fs and w=loaded_world
          and dss="[[13], [1]]" and ps="[''features'', ''targets'']" and idx="IInt 1"]
        unsupported_request_shapes[where self="test_view True" and fs=small_fs and w=loaded_world
          and dss="[[13], [1]]" and ps="[''features'', ''targets'']" and idx="IList [0, 0]"]
  by (simp add: test_view_def new_view_def getrow_def)

text \<open>
  C8 fails as stated: the in-memory view of \<open>data.hdf5\<close> answers the integer request
  \<open>0\<close>, which is neither a slice nor a list, with one row per column.
\<close>

theorem integer_request_in_memory_returns_rows:
  "fst (H5PYDataset_init small_fs ''data.hdf5'' (Some ''test'') None True None None empty_world)
     = Inr ()
   \<and> fst (get_data small_fs None (Some (IInt 0))
           (snd (H5PYDataset_init small_fs ''data.hdf5'' (Some ''test'') None True None None
                   empty_world)))
     = Inr [Row 13, Row 1]"
  by (simp add: test_view_init test_view_def new_view_def get_data_def in_memory_get_data_def
      filter_sources_def sources_def provides_sources_def getrow_def action_defs)

lemmas get_data_defs =
  get_data_def in_memory_get_data_def out_of_memory_get_data_def translate_request_def
  filter_sources_def open_dataset_def
  getslice_def slice_indices_def range_positions_def getrow_def

lemmas init_defs = H5PYDataset_init_def Dataset_init_def new_view_def empty_world_def

text \<open>
  C5. Two views of \<open>data.hdf5\<close>, split \<open>test\<close>, both constructed with
  \<open>sources = ("targets",)\<close>: for the request \<open>slice(0, 1)\<close> the in-memory view returns
  no array at all, the streamed view returns the one row of \<open>targets\<close>.
\<close>

theorem modes_differ_on_requested_sources:
  "fst (H5PYDataset_init small_fs ''data.hdf5'' (Some ''test'') None True None (Some [''targets''])
          empty_world) = Inr ()
   \<and> fst (get_data small_fs None (Some (ISlice (Slice (Some 0) (Some 1) None)))
           (snd (H5PYDataset_init small_fs ''data.hdf5'' (Some ''test'') None True None
                   (Some [''targets'']) empty_world)))
       = Inr []
   \<and> fst (H5PYDataset_init small_fs ''data.hdf5'' (Some ''test'') None False None (Some [''targets''])
          empty_world) = Inr ()
   \<and> fst (py_bind (open_dataset small_fs)
              (\<lambda>state. get_data small_fs state (Some (ISlice (Slice (Some 0) (Some 1) None))))
           (snd (H5PYDataset_init small_fs ''data.hdf5'' (Some ''test'') None False None
                   (Some [''targets'']) empty_world)))
       = Inr [Rows [1]]"
  by (simp add: init_defs load_defs get_data_defs registry_defs action_defs
      small_fs_def small_file_def)

text \<open>
  C7. The in-memory view of the whole file constructed with \<open>sources = ("targets",)\<close>
  exposes the column \<open>targets\<close> and holds its local copy, yet \<open>get_data\<close> with the
  request \<open>slice(None)\<close> returns the empty sequence: the copy was already restricted to
  the sources by \<open>load\<close>, and \<open>filter_sources\<close> pairs it with the names of all columns
  of the file.
\<close>

theorem in_memory_view_drops_requested_source:
  "fst (H5PYDataset_init small_fs ''data.hdf5'' None None True None (Some [''targets''])
          empty_world) = Inr ()
   \<and> fst (sources small_fs
           (snd (H5PYDataset_init small_fs ''data.hdf5'' None None True None
                   (Some [''targets'']) empty_world)))
       = Inr [''targets'']
   \<and> data_sources (fst (snd (H5PYDataset_init small_fs ''data.hdf5'' None None True None
                   (Some [''targets'']) empty_world)))
       = Some [[0, 1, 0, 1]]
   \<and> fst (get_data small_fs None (Some (ISlice (Slice None None None)))
           (snd (H5PYDataset_init small_fs ''data.hdf5'' None None True None
                   (Some [''targets'']) empty_world)))
       = Inr []"
  by (simp add: init_defs load_defs get_data_defs registry_defs action_defs
      small_fs_def small_file_def upt_conv_Cons)

section \<open>The exposed columns and the two load modes\<close>

lemma in_memory_get_data_slice:
  assumes "load_in_memory self" "data_sources self = Some dss"
    and "provides_sources_attr self = Some ps" "slice_step r \<noteq> Some 0"
  shows "get_data fs None (Some (ISlice r)) (self, w) =
          (Inr (keep_exposed f self (map (\<lambda>ds. Rows (projr (getslice ds r))) dss)), (self, w))"
proof -
  have "sequence_sum (map (\<lambda>data_source. getitem data_source (ISlice r)) dss) =
          Inr (map (\<lambda>ds. Rows (projr (getslice ds r))) dss)"
    by (rule sequence_sum_map_Inr) (rule getitem_slice_total[OF assms(4)])
  then show ?thesis
    using assms(1,2) filter_sources_cached[where fs=fs and f=f and w=w, OF assms(3)]
    by (simp add: get_data_def in_memory_get_data_def py_bind_def get_self_def lift_def)
qed

text \<open>Pairing per-column results with the names of their columns.\<close>

lemma keep_columns:
  "map fst (filter (\<lambda>(d, s). P s) (zip (map g (map snd cols)) (map fst cols)))
     = map (\<lambda>(name, ds). g ds) (filter (\<lambda>(name, ds). P name) cols)"
  by (induction cols) auto

text \<open>
  When the cached names are those of the file, the kept results are those of the
  exposed columns, one each, in the order of the file.
\<close>

lemma keep_exposed_columns:
  assumes "provided f self = map fst (columns f)"
  shows "keep_exposed f self (map g (map snd (columns f)))
           = map (\<lambda>(name, ds). g ds) (filter (\<lambda>(name, ds). name \<in> set (exposed f self)) (columns f))"
  using keep_columns[of "\<lambda>s. s \<in> set (exposed f self)" g "columns f"]
  by (simp add: keep_exposed_def assms)

lemma sequence_sum_results:
  "sequence_sum (map g xs) = Inr ys \<Longrightarrow> ys = map (\<lambda>x. projr (g x)) xs"
proof (induction xs arbitrary: ys)
  case Nil
  then show ?case by simp
next
  case (Cons x xs)
  then show ?case
    by (cases "g x"; cases "sequence_sum (map g xs)") auto
qed

lemma streamed_results_are_exposed_columns:
  assumes "provided f self = map fst (columns f)"
    and "read_columns f self idx = Inr results"
  shows "results = map (\<lambda>(name, ds). projr (getitem ds idx))
                     (filter (\<lambda>(name, ds). name \<in> set (exposed f self)) (columns f))"
proof -
  obtain data where data: "sequence_sum (map (\<lambda>ds. getitem ds idx) (map snd (columns f))) = Inr data"
    and res: "results = keep_exposed f self data"
    using assms(2) by (auto simp add: read_columns_def split: sum.splits)
  have "data = map (\<lambda>ds. projr (getitem ds idx)) (map snd (columns f))"
    using sequence_sum_results[OF data] .
  then show ?thesis
    using keep_exposed_columns[OF assms(1), of "\<lambda>ds. projr (getitem ds idx)"] res by simp
qed

lemma slice_of_slice:
  assumes "0 \<le> a" "a \<le> b" "0 \<le> i" "i \<le> j" "j \<le> b - a"
  shows "take (nat (j - i)) (drop (nat i) (take (nat (b - a)) (drop (nat a) xs)))
           = take (nat (j - i)) (drop (nat (i + a)) xs)"
proof -
  have "drop (nat i) (take (nat (b - a)) (drop (nat a) xs))
          = take (nat (b - a) - nat i) (drop (nat i + nat a) xs)"
    by (simp add: drop_take)
  moreover have "nat (j - i) \<le> nat (b - a) - nat i" using assms by linarith
  moreover have "nat i + nat a = nat (i + a)" using assms by linarith
  ultimately show ?thesis by (simp add: min_def)
qed

text \<open>
  The two load modes agree on contiguous requests within the resolved range when the
  view exposes every column of the file (no \<open>sources\<close> requested).
\<close>

lemma modes_agree_when_all_columns_exposed:
  assumes streamed: "\<not> load_in_memory vs" and memory: "load_in_memory vm"
    and sub: "subset vs = Slice (Some a) (Some b) st" "st = None \<or> st = Some 1"
    and copy: "data_sources vm = Some (in_memory_data f (Slice (Some a) (Some b) st) vm)"
    and all: "sources_attr vm = None" "sources_attr vs = None"
      "provides_sources_attr vm = Some (map fst (columns f))"
      "provides_sources_attr vs = Some (map fst (columns f))"
    and reads: "entry_reads fs w (path vs) f"
    and range: "0 \<le> a" "a \<le> b" "0 \<le> i" "i \<le> j" "j \<le> b - a" "rst = None \<or> rst = Some 1"
  shows "fst (get_data fs None (Some (ISlice (Slice (Some i) (Some j) rst))) (vm, wm))
           = fst (get_data fs (Some (path vs)) (Some (ISlice (Slice (Some i) (Some j) rst))) (vs, w))"
proof -
  let ?r = "Slice (Some i) (Some j) rst"
  let ?abs = "Slice (Some (i + a)) (Some (j + a)) rst"
  let ?rows = "\<lambda>ds. Rows (take (nat (j - i)) (drop (nat (i + a)) ds))"
  have pm: "provided f vm = map fst (columns f)" and ps: "provided f vs = map fst (columns f)"
    using all by (simp_all add: provided_def)
  have em: "exposed f vm = map fst (columns f)" and es: "exposed f vs = map fst (columns f)"
    using all pm ps by (simp_all add: exposed_def)
  have keep: "keep_exposed f vm data = keep_exposed f vs data" for data :: "'a selection list"
    by (simp add: keep_exposed_def pm ps em es)
  have "in_memory_data f (Slice (Some a) (Some b) st) vm
          = map (\<lambda>(name, ds). take (nat (b - a)) (drop (nat a) ds)) (columns f)"
  proof -
    have "filter (\<lambda>(name, ds). name \<in> set (exposed f vm)) (columns f) = columns f"
      by (rule filter_True) (auto simp add: em intro: rev_image_eqI)
    then show ?thesis
      using sub(2) range(1,2) by (simp add: in_memory_data_def getslice_nonneg)
  qed
  then have dss: "data_sources vm
          = Some (map (\<lambda>ds. take (nat (b - a)) (drop (nat a) ds)) (map snd (columns f)))"
    using copy by (simp add: case_prod_beta)
  have step: "slice_step ?r \<noteq> Some 0" using range(6) by auto
  have gd: "get_data fs None (Some (ISlice ?r)) (vm, wm) =
          (Inr (keep_exposed f vm
                 (map (\<lambda>ds. Rows (projr (getslice ds ?r)))
                    (map (\<lambda>ds. take (nat (b - a)) (drop (nat a) ds)) (map snd (columns f))))),
           (vm, wm))"
    by (rule in_memory_get_data_slice[OF memory dss all(3) step])
  have eq: "map (\<lambda>ds. Rows (projr (getslice ds ?r)))
                    (map (\<lambda>ds. take (nat (b - a)) (drop (nat a) ds)) (map snd (columns f)))
                 = map ?rows (map snd (columns f))"
    using range by (simp add: getslice_nonneg slice_of_slice)
  have lhs: "fst (get_data fs None (Some (ISlice ?r)) (vm, wm))
                          = Inr (keep_exposed f vs (map ?rows (map snd (columns f))))"
    unfolding gd eq keep by simp
  obtain h n where entry: "ref_counts w (Some (path vs)) = Some (Entry h n)"
    and hfile: "fs (handle_name h) = Some f"
    using reads by (auto simp add: entry_reads_iff)
  have "getitem ds (ISlice ?abs) = Inr (?rows ds)" for ds :: "'a list"
    using range by (simp add: getslice_nonneg)
  then have "sequence_sum (map (\<lambda>ds. getitem ds (ISlice ?abs)) (map snd (columns f)))
          = Inr (map ?rows (map snd (columns f)))"
    by (intro sequence_sum_map_Inr) simp
  then have "read_columns f vs (ISlice ?abs) = Inr (keep_exposed f vs (map ?rows (map snd (columns f))))"
    by (simp add: read_columns_def)
  moreover have "fst (out_of_memory_get_data fs (Some (path vs)) (Some (ISlice ?r)) (vs, w))
                   = read_columns f vs (ISlice ?abs)"
    by (rule out_of_memory_get_data_entry[where fs=fs and f=f, OF _ entry hfile])
       (simp add: translate_slice sub)
  ultimately have "fst (get_data fs (Some (path vs)) (Some (ISlice ?r)) (vs, w))
                     = Inr (keep_exposed f vs (map ?rows (map snd (columns f))))"
    using streamed by (simp add: get_data_def py_bind_def get_self_def)
  with lhs show ?thesis by simp
qed

end
